theory Spec2Isabelle
  imports Complex_Main "HOL-Library.Multiset"
begin

section \<open>JavaScript strings and numbers as the parser uses them\<close>

text \<open>
  A JavaScript string is modelled as a \<open>string\<close>, one \<open>char\<close> per UTF-16 code unit;
  the model covers the code units below 256 (ASCII and Latin-1), which is where every
  character class, keyword and separator of the parser lives.
\<close>

definition is_digit :: "char \<Rightarrow> bool" where
  \<comment> \<open>the regular-expression class \<open>\d\<close>\<close>
  "is_digit c = (c \<in> set ''0123456789'')"

definition is_space :: "char \<Rightarrow> bool" where
  \<comment> \<open>the class \<open>\s\<close> and the characters \<open>trim\<close> removes: TAB, LF, VT, FF, CR, space, NBSP\<close>
  "is_space c = (c \<in> set [CHR 0x09, CHR 0x0A, CHR 0x0B, CHR 0x0C, CHR 0x0D, CHR 0x20, CHR 0xA0])"

definition is_word :: "char \<Rightarrow> bool" where
  \<comment> \<open>the class \<open>\w\<close>\<close>
  "is_word c = (c \<in> set ''abcdefghijklmnopqrstuvwxyzABCDEFGHIJKLMNOPQRSTUVWXYZ0123456789_'')"

definition line_terminator :: "char \<Rightarrow> bool" where
  \<comment> \<open>what \<open>.\<close> does not match\<close>
  "line_terminator c = (c = CHR 0x0A \<or> c = CHR 0x0D)"

definition to_lower_char :: "char \<Rightarrow> char" where
  "to_lower_char c =
     (let n = (of_char c :: nat)
      in if (65 \<le> n \<and> n \<le> 90) \<or> (192 \<le> n \<and> n \<le> 222 \<and> n \<noteq> 215)
         then char_of (n + 32) else c)"

definition toLowerCase :: "string \<Rightarrow> string" where
  "toLowerCase s = map to_lower_char s"

definition trim :: "string \<Rightarrow> string" where
  "trim s = rev (dropWhile is_space (rev (dropWhile is_space s)))"

definition startsWith :: "string \<Rightarrow> string \<Rightarrow> bool" where
  "startsWith s w = (take (length w) s = w)"

fun str_includes :: "string \<Rightarrow> string \<Rightarrow> bool" where
  "str_includes [] w = (w = [])"
| "str_includes (c # cs) w = (startsWith (c # cs) w \<or> str_includes cs w)"

fun split_on :: "(char \<Rightarrow> bool) \<Rightarrow> string \<Rightarrow> string list" where
  \<comment> \<open>\<open>split\<close> at every single separator character; the empty string gives one empty piece\<close>
  "split_on P [] = [[]]"
| "split_on P (c # cs) =
     (if P c then [] # split_on P cs
      else (case split_on P cs of [] \<Rightarrow> [[c]] | w # ws \<Rightarrow> (c # w) # ws))"

definition split_ws :: "string \<Rightarrow> string list" where
  \<comment> \<open>\<open>split(/\s+/)\<close>: a run of white space is one separator\<close>
  "split_ws s =
     (let ps = split_on is_space s
      in if length ps \<le> 1 then ps
         else hd ps # filter (\<lambda>p. p \<noteq> []) (butlast (tl ps)) @ [last ps])"

fun join :: "string \<Rightarrow> string list \<Rightarrow> string" where
  "join sep [] = []"
| "join sep [p] = p"
| "join sep (p # q # ps) = p @ sep @ join sep (q # ps)"

definition padStart2 :: "string \<Rightarrow> string" where
  \<comment> \<open>\<open>padStart(2, '0')\<close>\<close>
  "padStart2 s = replicate (2 - length s) (CHR ''0'') @ s"

fun findIndex :: "('a \<Rightarrow> bool) \<Rightarrow> 'a list \<Rightarrow> int" where
  "findIndex P [] = - 1"
| "findIndex P (x # xs) =
     (if P x then 0 else (let i = findIndex P xs in if i = - 1 then - 1 else i + 1))"

definition slice :: "'a list \<Rightarrow> int \<Rightarrow> int \<Rightarrow> 'a list" where
  \<comment> \<open>\<open>Array.prototype.slice\<close> for indices that are not negative\<close>
  "slice xs a b = take (nat b - nat a) (drop (nat a) xs)"

function show_int :: "int \<Rightarrow> string" where
  \<comment> \<open>a number that is not negative inside a template literal\<close>
  "show_int n = (if n < 10 then [char_of (48 + n)] else show_int (n div 10) @ [char_of (48 + n mod 10)])"
  by pat_completeness auto
termination
  by (relation "measure nat") auto

declare show_int.simps [simp del]

subsection \<open>Numbers\<close>

text \<open>
  A JavaScript number is a double: NaN, an infinity, or a rational that a double can hold
  (the two zeros are one value here; nothing in the parser tells them apart). A decimal
  is rounded to the nearest double, ties to even, with overflow to infinity and gradual
  underflow to zero, as the engines do.
\<close>

datatype jsnum = NaN | NegInf | Num rat | PosInf

fun js_lt :: "jsnum \<Rightarrow> jsnum \<Rightarrow> bool" where
  "js_lt NaN _ = False"
| "js_lt _ NaN = False"
| "js_lt PosInf _ = False"
| "js_lt _ NegInf = False"
| "js_lt NegInf _ = True"
| "js_lt _ PosInf = True"
| "js_lt (Num x) (Num y) = (x < y)"

definition js_gt :: "jsnum \<Rightarrow> jsnum \<Rightarrow> bool" where
  "js_gt a b = js_lt b a"

definition js_ge :: "jsnum \<Rightarrow> jsnum \<Rightarrow> bool" where
  \<comment> \<open>\<open>a >= b\<close>: false when either side is NaN\<close>
  "js_ge a b = (a \<noteq> NaN \<and> b \<noteq> NaN \<and> \<not> js_lt a b)"

fun js_abs :: "jsnum \<Rightarrow> jsnum" where
  "js_abs NaN = NaN"
| "js_abs NegInf = PosInf"
| "js_abs PosInf = PosInf"
| "js_abs (Num x) = Num \<bar>x\<bar>"

definition truthy :: "jsnum \<Rightarrow> bool" where
  "truthy x = (x \<noteq> NaN \<and> x \<noteq> Num 0)"

definition js_or :: "jsnum \<Rightarrow> jsnum \<Rightarrow> jsnum" where
  \<comment> \<open>\<open>a || b\<close> on numbers\<close>
  "js_or a b = (if truthy a then a else b)"

definition digit_val :: "char \<Rightarrow> int" where
  "digit_val c = of_char c - 48"

definition int_of_digits :: "string \<Rightarrow> int" where
  "int_of_digits ds = foldl (\<lambda>n c. 10 * n + digit_val c) 0 ds"

definition is_sign :: "char \<Rightarrow> bool" where
  "is_sign c = (c = CHR ''+'' \<or> c = CHR ''-'')"

definition exponent_part :: "string \<Rightarrow> int" where
  \<comment> \<open>the value of an ExponentPart at the head of the string, 0 when there is none\<close>
  "exponent_part s =
     (case s of
        [] \<Rightarrow> 0
      | e # r \<Rightarrow>
          if e \<noteq> CHR ''e'' \<and> e \<noteq> CHR ''E'' then 0
          else (let neg = (case r of [] \<Rightarrow> False | c # _ \<Rightarrow> c = CHR ''-'');
                    r' = (case r of [] \<Rightarrow> [] | c # t \<Rightarrow> if is_sign c then t else r);
                    ds = takeWhile is_digit r'
                in if ds = [] then 0
                   else if neg then - int_of_digits ds else int_of_digits ds))"

function bit_length :: "int \<Rightarrow> int" where
  \<comment> \<open>the number of binary digits of a positive integer\<close>
  "bit_length n = (if n \<le> 0 then 0 else 1 + bit_length (n div 2))"
  by pat_completeness auto
termination
  by (relation "measure nat") auto

declare bit_length.simps [simp del]

definition round_half_even :: "int \<Rightarrow> int \<Rightarrow> int" where
  \<comment> \<open>\<open>n / d\<close> rounded to the nearest integer, a tie to the even one (\<open>0 \<le> n\<close>, \<open>0 < d\<close>)\<close>
  "round_half_even n d =
     (let q = n div d; r = n mod d
      in if 2 * r < d then q else if 2 * r > d then q + 1 else if even q then q else q + 1)"

definition to_double :: "int \<Rightarrow> int \<Rightarrow> jsnum" where
  \<comment> \<open>the double nearest to \<open>p / q\<close> (\<open>0 \<le> p\<close>, \<open>0 < q\<close>): \<open>e\<close> is the binary exponent of
      \<open>p / q\<close>, \<open>qe\<close> the exponent of the last place (52 places below \<open>e\<close>, and not below
      the subnormal limit), \<open>m\<close> the significand\<close>
  "to_double p q =
     (if p = 0 then Num 0
      else
        (let e0 = bit_length p - bit_length q;
             e = (if (if 0 \<le> e0 then p < q * 2 ^ nat e0 else p * 2 ^ nat (- e0) < q)
                  then e0 - 1 else e0);
             qe = max (e - 52) (- 1074)
         in if 0 \<le> qe
            then (let m = round_half_even p (q * 2 ^ nat qe)
                  in if m * 2 ^ nat qe \<ge> 2 ^ 1024 then PosInf else Num (of_int (m * 2 ^ nat qe)))
            else (let m = round_half_even (p * 2 ^ nat (- qe)) q
                  in Num (of_int m / 2 ^ nat (- qe)))))"

fun js_neg :: "jsnum \<Rightarrow> jsnum" where
  "js_neg NaN = NaN"
| "js_neg NegInf = PosInf"
| "js_neg PosInf = NegInf"
| "js_neg (Num x) = Num (- x)"

definition parseFloat :: "string \<Rightarrow> jsnum" where
  \<comment> \<open>the longest prefix, after leading white space, that is a StrDecimalLiteral; its
      digits \<open>ip.fp\<close> and exponent give the decimal \<open>mant * 10 ^ ex\<close>\<close>
  "parseFloat s =
     (let t = dropWhile is_space s;
          neg = (case t of [] \<Rightarrow> False | c # _ \<Rightarrow> c = CHR ''-'');
          u = (case t of [] \<Rightarrow> [] | c # r \<Rightarrow> if is_sign c then r else t)
      in if startsWith u ''Infinity'' then (if neg then NegInf else PosInf)
         else
           (let ip = takeWhile is_digit u;
                r1 = dropWhile is_digit u;
                dot = (case r1 of [] \<Rightarrow> False | c # _ \<Rightarrow> c = CHR ''.'');
                fp = (if dot then takeWhile is_digit (tl r1) else []);
                r2 = (if dot then dropWhile is_digit (tl r1) else r1)
            in if ip = [] \<and> fp = [] then NaN
               else
                 (let mant = int_of_digits (ip @ fp);
                      ex = exponent_part r2 - int (length fp);
                      v = (if 0 \<le> ex then to_double (mant * 10 ^ nat ex) 1
                           else to_double mant (10 ^ nat (- ex)))
                  in if neg then js_neg v else v)))"

section \<open>Regular expressions\<close>

text \<open>
  A regular expression is modelled by its anchored matcher: the length of the match that
  starts at the head of the string, if there is one. The expressions of the parser need no
  backtracking (every optional or repeated part is followed by parts that may be empty, or
  by a character the part itself cannot take), so the greedy choice below is the match
  the JavaScript engine finds.

  The bank patterns carry the \<open>g\<close> flag. \<open>String.prototype.match\<close> and
  \<open>String.prototype.replace\<close> reset \<open>lastIndex\<close> before they scan, and every
  \<open>test\<close> of the parser runs inside a \<open>findIndex\<close> that stops at the first success and
  follows a \<open>match\<close> of the same pattern, so each \<open>test\<close> starts at index 0: the
  pattern state never changes a result and is left out.
\<close>

type_synonym regex = "string \<Rightarrow> nat option"

fun match_all :: "regex \<Rightarrow> string \<Rightarrow> string list" where
  \<comment> \<open>\<open>s.match(r)\<close> for a global pattern; the empty list stands for \<open>null\<close>\<close>
  "match_all r [] = (case r [] of None \<Rightarrow> [] | Some n \<Rightarrow> [[]])"
| "match_all r (c # cs) =
     (case r (c # cs) of
        None \<Rightarrow> match_all r cs
      | Some n \<Rightarrow> take n (c # cs) # match_all r (drop (n - 1) cs))"

fun replace_all :: "regex \<Rightarrow> string \<Rightarrow> string \<Rightarrow> string" where
  \<comment> \<open>\<open>s.replace(r, by)\<close> for a global pattern\<close>
  "replace_all r by [] = (case r [] of None \<Rightarrow> [] | Some n \<Rightarrow> by)"
| "replace_all r by (c # cs) =
     (case r (c # cs) of
        None \<Rightarrow> c # replace_all r by cs
      | Some 0 \<Rightarrow> by @ c # replace_all r by cs
      | Some (Suc n) \<Rightarrow> by @ replace_all r by (drop n cs))"

definition test :: "regex \<Rightarrow> string \<Rightarrow> bool" where
  \<comment> \<open>\<open>r.test(s)\<close> from index 0\<close>
  "test r s = (match_all r s \<noteq> [])"

definition one_char :: "(char \<Rightarrow> bool) \<Rightarrow> regex" where
  \<comment> \<open>a single character class\<close>
  "one_char P s = (case s of [] \<Rightarrow> None | c # _ \<Rightarrow> if P c then Some 1 else None)"

definition some_chars :: "(char \<Rightarrow> bool) \<Rightarrow> regex" where
  \<comment> \<open>a character class under \<open>+\<close>\<close>
  "some_chars P s = (case takeWhile P s of [] \<Rightarrow> None | c # cs \<Rightarrow> Some (Suc (length cs)))"

definition date_rx :: "nat \<Rightarrow> string \<Rightarrow> regex" where
  \<comment> \<open>\<open>\d{lo,2}[seps]\d{lo,2}[seps]\d{4}\<close>\<close>
  "date_rx lo seps s =
     (let d1 = length (takeWhile is_digit (take 2 s))
      in if d1 = 0 \<or> d1 < lo then None
         else (case drop d1 s of
                 [] \<Rightarrow> None
               | c # r1 \<Rightarrow>
                   if c \<notin> set seps then None
                   else (let d2 = length (takeWhile is_digit (take 2 r1))
                         in if d2 = 0 \<or> d2 < lo then None
                            else (case drop d2 r1 of
                                    [] \<Rightarrow> None
                                  | c' # r2 \<Rightarrow>
                                      if c' \<notin> set seps then None
                                      else if length (takeWhile is_digit (take 4 r2)) = 4
                                      then Some (d1 + 1 + d2 + 1 + 4) else None))))"

fun comma_groups :: "string \<Rightarrow> nat" where
  \<comment> \<open>the length of \<open>(?:,\d{3})*\<close> at the head of the string\<close>
  "comma_groups (c # d1 # d2 # d3 # r) =
     (if c = CHR '','' \<and> is_digit d1 \<and> is_digit d2 \<and> is_digit d3 then 4 + comma_groups r else 0)"
| "comma_groups _ = 0"

definition amount_rx :: regex where
  \<comment> \<open>\<open>[+-]?\d{1,3}(?:,\d{3})*(?:\.\d{2})?\<close>\<close>
  "amount_rx s =
     (let sg = (case s of [] \<Rightarrow> 0 | c # _ \<Rightarrow> if is_sign c then 1 else (0::nat));
          r0 = drop sg s;
          d = length (takeWhile is_digit (take 3 r0))
      in if d = 0 then None
         else (let r1 = drop d r0;
                   g = comma_groups r1;
                   r2 = drop g r1;
                   f = (case r2 of
                          c # d1 # d2 # _ \<Rightarrow>
                            if c = CHR ''.'' \<and> is_digit d1 \<and> is_digit d2 then 3 else (0::nat)
                        | _ \<Rightarrow> 0)
               in Some (sg + d + g + f)))"

text \<open>
  The header patterns are tested without the \<open>g\<close> flag, as a yes or no: literal words
  separated by \<open>.*\<close>, searched from every start position.
\<close>

fun dot_star :: "(string \<Rightarrow> bool) \<Rightarrow> string \<Rightarrow> bool" where
  "dot_star k [] = k []"
| "dot_star k (c # cs) = (k (c # cs) \<or> (\<not> line_terminator c \<and> dot_star k cs))"

definition lit :: "string \<Rightarrow> (string \<Rightarrow> bool) \<Rightarrow> string \<Rightarrow> bool" where
  "lit w k s = (startsWith s w \<and> k (drop (length w) s))"

fun search :: "(string \<Rightarrow> bool) \<Rightarrow> string \<Rightarrow> bool" where
  "search k [] = k []"
| "search k (c # cs) = (k (c # cs) \<or> search k cs)"

definition words3 :: "string \<Rightarrow> string \<Rightarrow> string \<Rightarrow> string \<Rightarrow> bool" where
  \<comment> \<open>\<open>/a.*b.*c/.test(s)\<close>\<close>
  "words3 a b c s = search (lit a (dot_star (lit b (dot_star (lit c (\<lambda>_. True)))))) s"

definition headerPatterns :: "(string \<Rightarrow> bool) list" where
  \<comment> \<open>the \<open>i\<close> flag changes nothing: every line is lower-cased before the test\<close>
  "headerPatterns =
     [words3 ''date'' ''description'' ''amount'',
      words3 ''date'' ''narration'' ''amount'',
      words3 ''date'' ''particulars'' ''amount'',
      words3 ''date'' ''details'' ''amount'',
      words3 ''transaction'' ''date'' ''amount'']"

section \<open>The data model\<close>

datatype direction = credit | debit

datatype severity = warning | error

record ParsedTransaction =
  tx_id :: string
  date :: string
  description :: string
  amount :: jsnum
  tx_type :: direction
  category :: string
  balance :: "jsnum option"
  reference :: "string option"
  isReconciled :: bool
  confidence :: rat

record ImportError =
  row :: "nat option"
  message :: string
  severity :: severity

record parse_result =
  transactions :: "ParsedTransaction list"
  errors :: "ImportError list"

text \<open>
  A bank pattern holds the two expressions the strategies use. Its description pattern
  and balance keywords are read by no function and are left out.
\<close>

record BankPattern =
  datePattern :: regex
  amountPattern :: regex

datatype bankType = hdfc | icici | sbi | axis | generic

fun BANK_PATTERNS :: "bankType \<Rightarrow> BankPattern" where
  "BANK_PATTERNS hdfc = \<lparr>datePattern = date_rx 2 ''/'', amountPattern = amount_rx\<rparr>"
| "BANK_PATTERNS icici = \<lparr>datePattern = date_rx 2 ''-'', amountPattern = amount_rx\<rparr>"
| "BANK_PATTERNS sbi = \<lparr>datePattern = date_rx 2 ''-'', amountPattern = amount_rx\<rparr>"
| "BANK_PATTERNS axis = \<lparr>datePattern = date_rx 2 ''/'', amountPattern = amount_rx\<rparr>"
| "BANK_PATTERNS generic = \<lparr>datePattern = date_rx 1 ''/-'', amountPattern = amount_rx\<rparr>"

section \<open>The normaliser and the classifier\<close>

definition date_parts :: "string \<Rightarrow> string list" where
  \<comment> \<open>\<open>dateStr.replace(/[^\d/-]/g, '').split(/[/-]/)\<close>\<close>
  "date_parts dateStr =
     (let cleaned = filter (\<lambda>c. is_digit c \<or> c = CHR ''/'' \<or> c = CHR ''-'') dateStr
      in split_on (\<lambda>c. c = CHR ''/'' \<or> c = CHR ''-'') cleaned)"

definition standardizeDate :: "string \<Rightarrow> string \<Rightarrow> string" where
  \<comment> \<open>\<open>today\<close> is what \<open>new Date().toISOString().split('T')[0]\<close> returns\<close>
  "standardizeDate today dateStr =
     (case date_parts dateStr of
        [day, month, year] \<Rightarrow>
          (let fullYear = (if length year = 2 then ''20'' @ year else year)
           in fullYear @ ''-'' @ padStart2 month @ ''-'' @ padStart2 day)
      | _ \<Rightarrow> today)"

definition has_any :: "string \<Rightarrow> string list \<Rightarrow> bool" where
  \<comment> \<open>\<open>desc.includes(k1) || desc.includes(k2) || ...\<close>\<close>
  "has_any desc ks = list_ex (str_includes desc) ks"

definition categorizeTransaction :: "string \<Rightarrow> string" where
  "categorizeTransaction description' =
     (let desc = toLowerCase description'
      in if has_any desc [''salary'', ''credit'', ''deposit''] then ''income''
         else if has_any desc [''interest'', ''dividend''] then ''income''
         else if has_any desc [''refund'', ''cashback''] then ''income''
         else if has_any desc [''grocery'', ''supermarket'', ''food''] then ''food''
         else if has_any desc [''restaurant'', ''cafe'', ''dining''] then ''food''
         else if has_any desc [''swiggy'', ''zomato'', ''delivery''] then ''food''
         else if has_any desc [''fuel'', ''petrol'', ''diesel''] then ''transport''
         else if has_any desc [''uber'', ''ola'', ''taxi''] then ''transport''
         else if has_any desc [''metro'', ''bus'', ''train''] then ''transport''
         else if has_any desc [''parking'', ''toll''] then ''transport''
         else if has_any desc [''amazon'', ''flipkart'', ''myntra''] then ''shopping''
         else if has_any desc [''mall'', ''store'', ''shop''] then ''shopping''
         else if has_any desc [''clothing'', ''fashion''] then ''shopping''
         else if has_any desc [''electricity'', ''power''] then ''utilities''
         else if has_any desc [''water'', ''gas''] then ''utilities''
         else if has_any desc [''internet'', ''wifi'', ''broadband''] then ''utilities''
         else if has_any desc [''mobile'', ''phone'', ''recharge''] then ''utilities''
         else if has_any desc [''netflix'', ''prime'', ''hotstar''] then ''entertainment''
         else if has_any desc [''movie'', ''cinema'', ''theatre''] then ''entertainment''
         else if has_any desc [''game'', ''gaming''] then ''entertainment''
         else if has_any desc [''atm'', ''cash''] then ''cash''
         else if has_any desc [''transfer'', ''neft'', ''imps''] then ''transfer''
         else if has_any desc [''payment'', ''bill''] then ''payment''
         else if has_any desc [''rent'', ''emi''] then ''payment''
         else if has_any desc [''medical'', ''hospital'', ''pharmacy''] then ''healthcare''
         else if has_any desc [''doctor'', ''clinic''] then ''healthcare''
         else ''other'')"

definition detectBankType :: "string \<Rightarrow> bankType" where
  "detectBankType text' =
     (let lowerText = toLowerCase text'
      in if str_includes lowerText ''hdfc'' then hdfc
         else if str_includes lowerText ''icici'' then icici
         else if str_includes lowerText ''state bank'' \<or> str_includes lowerText ''sbi'' then sbi
         else if str_includes lowerText ''axis'' then axis
         else generic)"

section \<open>The three parsing strategies\<close>

definition remove_commas :: "string \<Rightarrow> string" where
  \<comment> \<open>\<open>a.replace(/,/g, '')\<close>\<close>
  "remove_commas a = replace_all (one_char (\<lambda>c. c = CHR '','')) [] a"

definition line_type :: "jsnum \<Rightarrow> string \<Rightarrow> direction" where
  \<comment> \<open>the direction the tabular and the regex strategy give a line\<close>
  "line_type amt line =
     (if js_lt amt (Num 0) then debit
      else if str_includes (toLowerCase line) ''dr'' \<or> str_includes (toLowerCase line) ''debit''
      then debit
      else if str_includes (toLowerCase line) ''cr'' \<or> str_includes (toLowerCase line) ''credit''
      then credit
      else credit)"

definition pick_amount :: "jsnum list \<Rightarrow> jsnum" where
  \<comment> \<open>\<open>amounts[amounts.length - 1] || amounts[0] || 0\<close> on a list that is not empty\<close>
  "pick_amount amounts = js_or (js_or (last amounts) (hd amounts)) (Num 0)"

definition tabular_description :: "BankPattern \<Rightarrow> string \<Rightarrow> string" where
  \<comment> \<open>the description of a row after the clean-up, before it is cut to length\<close>
  "tabular_description patterns line =
     (let parts = split_ws line;
          dateIndex = findIndex (test (datePattern patterns)) parts;
          amountIndex = findIndex (test (amountPattern patterns)) parts;
          description' = (if dateIndex \<noteq> - 1 \<and> amountIndex \<noteq> - 1 \<and> amountIndex > dateIndex + 1
                          then trim (join '' '' (slice parts (dateIndex + 1) amountIndex))
                          else if dateIndex \<noteq> - 1
                          then trim (join '' '' (drop (nat (dateIndex + 1)) parts))
                          else ''Transaction'')
      in trim (replace_all (amountPattern patterns) [] description'))"

definition tabular_row :: "string \<Rightarrow> BankPattern \<Rightarrow> nat \<Rightarrow> string \<Rightarrow> ParsedTransaction option" where
  \<comment> \<open>the body of the row loop; \<open>n\<close> is \<open>transactions.length\<close>; \<open>None\<close> when nothing is pushed\<close>
  "tabular_row today patterns n raw =
     (let line = trim raw
      in if length line < 10 then None
         else
           (let dateMatch = match_all (datePattern patterns) line;
                amountMatches = match_all (amountPattern patterns) line
            in if dateMatch = [] \<or> amountMatches = [] then None
               else
                 (let date' = standardizeDate today (hd dateMatch);
                      amounts = map (\<lambda>a. parseFloat (remove_commas a)) amountMatches;
                      amount' = pick_amount amounts;
                      type' = line_type amount' line;
                      d1 = tabular_description patterns line;
                      d2 = (if length d1 > 100 then take 100 d1 @ ''...'' else d1)
                  in if d2 \<noteq> [] \<and> amount' \<noteq> Num 0
                     then Some \<lparr>tx_id = ''temp-'' @ show_int (int n),
                                date = date',
                                description = (if d2 = [] then ''Transaction'' else d2),
                                amount = js_abs amount',
                                tx_type = type',
                                category = categorizeTransaction d2,
                                balance = None,
                                reference = None,
                                isReconciled = False,
                                confidence = 8 / 10\<rparr>
                     else None)))"

definition push_row :: "(nat \<Rightarrow> 'a \<Rightarrow> ParsedTransaction option) \<Rightarrow> ParsedTransaction list \<Rightarrow> 'a
    \<Rightarrow> ParsedTransaction list" where
  \<comment> \<open>one turn of a loop that pushes to \<open>transactions\<close>\<close>
  "push_row body txs x = (case body (length txs) x of None \<Rightarrow> txs | Some tx \<Rightarrow> txs @ [tx])"

definition headerLine :: "string list \<Rightarrow> BankPattern \<Rightarrow> int" where
  "headerLine lines patterns =
     (let h = findIndex (\<lambda>l. list_ex (\<lambda>pattern. pattern (toLowerCase l)) headerPatterns) lines
      in if h \<noteq> - 1 then h
         else (let i = findIndex (\<lambda>l. match_all (datePattern patterns) l \<noteq> []
                                      \<and> match_all (amountPattern patterns) l \<noteq> []) lines
               in if i \<noteq> - 1 then i - 1 else - 1))"

definition parseTabularFormat :: "string \<Rightarrow> string list \<Rightarrow> BankPattern \<Rightarrow> ParsedTransaction list" where
  "parseTabularFormat today lines patterns =
     (let h = headerLine lines patterns;
          startIndex = (if h = - 1 then 0 else nat (h + 1))
      in foldl (push_row (tabular_row today patterns)) [] (drop startIndex lines))"

definition window_row :: "string \<Rightarrow> BankPattern \<Rightarrow> string list \<Rightarrow> nat \<Rightarrow> nat
    \<Rightarrow> ParsedTransaction option" where
  \<comment> \<open>the body of the window loop at index \<open>i\<close>, which the loop keeps below \<open>lines.length - 2\<close>\<close>
  "window_row today patterns lines n i =
     (let currentLine = trim (lines ! i);
          nextLine = trim (lines ! (i + 1));
          thirdLine = trim (lines ! (i + 2));
          combinedLine = currentLine @ '' '' @ nextLine @ '' '' @ thirdLine;
          dateMatch = match_all (datePattern patterns) combinedLine;
          amountMatch = match_all (amountPattern patterns) combinedLine
      in if dateMatch = [] \<or> amountMatch = [] then None
         else
           (let date' = standardizeDate today (hd dateMatch);
                amount' = parseFloat (remove_commas (hd amountMatch));
                d = trim (replace_all (amountPattern patterns) []
                            (replace_all (datePattern patterns) [] currentLine))
            in Some \<lparr>tx_id = ''temp-'' @ show_int (int n),
                     date = date',
                     description = (if d = [] then ''Transaction'' else d),
                     amount = js_abs amount',
                     tx_type = (if js_lt amount' (Num 0) then debit else credit),
                     category = ''other'',
                     balance = None,
                     reference = None,
                     isReconciled = False,
                     confidence = 7 / 10\<rparr>))"

definition parseLineByLineFormat :: "string \<Rightarrow> string list \<Rightarrow> BankPattern \<Rightarrow> ParsedTransaction list" where
  "parseLineByLineFormat today lines patterns =
     foldl (push_row (window_row today patterns lines)) [] [0 ..< length lines - 2]"

definition regex_row :: "string \<Rightarrow> BankPattern \<Rightarrow> nat \<Rightarrow> string \<Rightarrow> ParsedTransaction option" where
  "regex_row today patterns n line =
     (let dateMatch = match_all (datePattern patterns) line;
          amountMatches = match_all (amountPattern patterns) line
      in if dateMatch = [] \<or> amountMatches = [] then None
         else
           (let date' = standardizeDate today (hd dateMatch);
                amounts = map (\<lambda>a. parseFloat (remove_commas a)) amountMatches;
                amount' = pick_amount amounts;
                type' = line_type amount' line;
                d0 = trim (replace_all (amountPattern patterns) []
                             (replace_all (datePattern patterns) [] line));
                d1 = trim (replace_all (some_chars is_space) '' ''
                             (replace_all (one_char (\<lambda>c. \<not> is_word c \<and> \<not> is_space c)) '' '' d0))
            in if d1 \<noteq> [] \<and> amount' \<noteq> Num 0
               then Some \<lparr>tx_id = ''temp-'' @ show_int (int n),
                          date = date',
                          description = (if d1 = [] then ''Transaction'' else d1),
                          amount = js_abs amount',
                          tx_type = type',
                          category = categorizeTransaction d1,
                          balance = None,
                          reference = None,
                          isReconciled = False,
                          confidence = 6 / 10\<rparr>
               else None))"

definition parseRegexFormat :: "string \<Rightarrow> string \<Rightarrow> BankPattern \<Rightarrow> ParsedTransaction list" where
  "parseRegexFormat today text' patterns =
     (let lines = filter (\<lambda>line. trim line \<noteq> []) (split_on (\<lambda>c. c = CHR 0x0A) text')
      in foldl (push_row (regex_row today patterns)) [] lines)"

section \<open>The recognition engine and the orchestrator\<close>

datatype strategy_name = Tabular | LineByLine | RegexSweep

fun run_strategies :: "(strategy_name \<times> (unit \<Rightarrow> ParsedTransaction list)) list
    \<Rightarrow> strategy_name list \<times> ParsedTransaction list" where
  \<comment> \<open>the strategy loop: the strategies that were called, and what was pushed to \<open>transactions\<close>\<close>
  "run_strategies [] = ([], [])"
| "run_strategies ((name, strategy) # rest) =
     (let result = strategy ()
      in if length result > 0 then ([name], result)
         else (let (ran, txs) = run_strategies rest in (name # ran, txs)))"

definition allLines :: "string \<Rightarrow> string list" where
  "allLines text' = filter (\<lambda>line. length (trim line) > 0) (split_on (\<lambda>c. c = CHR 0x0A) text')"

definition strategies :: "string \<Rightarrow> string \<Rightarrow> BankPattern
    \<Rightarrow> (strategy_name \<times> (unit \<Rightarrow> ParsedTransaction list)) list" where
  "strategies today text' patterns =
     [(Tabular, \<lambda>_. parseTabularFormat today (allLines text') patterns),
      (LineByLine, \<lambda>_. parseLineByLineFormat today (allLines text') patterns),
      (RegexSweep, \<lambda>_. parseRegexFormat today text' patterns)]"

definition validTransactions :: "(nat \<Rightarrow> int) \<Rightarrow> ParsedTransaction list \<Rightarrow> ParsedTransaction list" where
  \<comment> \<open>\<open>clock index\<close> is what \<open>Date.now()\<close> returns when the id of entry \<open>index\<close> is built\<close>
  "validTransactions clock txs =
     map (\<lambda>(index, tx). tx\<lparr>tx_id := ''pdf-'' @ show_int (clock index) @ ''-'' @ show_int (int index)\<rparr>)
       (enumerate 0 (filter (\<lambda>tx. date tx \<noteq> [] \<and> amount tx \<noteq> Num 0) txs))"

definition parseTransactionsFromText :: "string \<Rightarrow> (nat \<Rightarrow> int) \<Rightarrow> string \<Rightarrow> bankType \<Rightarrow> parse_result" where
  "parseTransactionsFromText today clock text' bankType =
     (let patterns = BANK_PATTERNS bankType;
          transactions' = snd (run_strategies (strategies today text' patterns));
          valid = validTransactions clock transactions'
      in \<lparr>transactions = valid,
          errors = (if length valid = 0
                    then [\<lparr>row = None,
                           message = ''No valid transactions could be extracted from the PDF text'',
                           severity = warning\<rparr>]
                    else [])\<rparr>)"

text \<open>
  The orchestrator. The file is what the caller passes (\<open>None\<close> for a missing one), with
  its declared type and its size in bytes. \<open>pdfToText\<close> is the extraction library: it
  returns the text or throws. The model returns the files the library was called with,
  in order, beside the outcome of the promise.
\<close>

record File =
  file_type :: string
  file_size :: int

datatype thrown = ErrorObject string | OtherValue

datatype 'a promise = Resolved 'a | Rejected thrown

definition parse_body :: "(File \<Rightarrow> thrown + string) \<Rightarrow> string \<Rightarrow> (nat \<Rightarrow> int) \<Rightarrow> File option \<Rightarrow> bankType
    \<Rightarrow> File list \<times> (thrown + parse_result)" where
  \<comment> \<open>the \<open>try\<close> block: \<open>Inl\<close> is a throw\<close>
  "parse_body pdfToText today clock file bankType =
     (case file of
        None \<Rightarrow> ([], Inl (ErrorObject ''Invalid PDF file provided''))
      | Some f \<Rightarrow>
          if file_type f \<noteq> ''application/pdf''
          then ([], Inl (ErrorObject ''Invalid PDF file provided''))
          else if file_size f > 50 * 1024 * 1024
          then ([], Inl (ErrorObject ''PDF file too large (max 50MB)''))
          else
            (case pdfToText f of
               Inl e \<Rightarrow> ([f], Inl e)
             | Inr text' \<Rightarrow>
                 if text' = [] \<or> length (trim text') = 0
                 then ([f], Inl (ErrorObject
                   ''No text could be extracted from the PDF. The file might be scanned or corrupted.''))
                 else
                   (let detectedBankType = (if bankType = generic then detectBankType text' else bankType);
                        parsedTransactions = parseTransactionsFromText today clock text' detectedBankType;
                        transactions' = transactions parsedTransactions;
                        errors' = errors parsedTransactions
                    in ([f], Inr \<lparr>transactions = transactions',
                                  errors = (if length transactions' = 0
                                            then errors' @
                                              [\<lparr>row = None,
                                                message = ''No transactions found in PDF. This might not be a bank statement or the format is not supported.'',
                                                severity = error\<rparr>]
                                            else errors')\<rparr>))))"

definition errorMessage :: "string \<Rightarrow> thrown \<Rightarrow> string" where
  \<comment> \<open>\<open>error instanceof Error ? error.message : fallback\<close>\<close>
  "errorMessage fallback e = (case e of ErrorObject m \<Rightarrow> m | OtherValue \<Rightarrow> fallback)"

definition parsePDFBankStatement :: "(File \<Rightarrow> thrown + string) \<Rightarrow> string \<Rightarrow> (nat \<Rightarrow> int) \<Rightarrow> File option
    \<Rightarrow> bankType \<Rightarrow> File list \<times> parse_result promise" where
  \<comment> \<open>the \<open>catch\<close> block turns every throw of the body into a result\<close>
  "parsePDFBankStatement pdfToText today clock file bankType =
     (case parse_body pdfToText today clock file bankType of
        (calls, Inr r) \<Rightarrow> (calls, Resolved r)
      | (calls, Inl e) \<Rightarrow>
          (calls, Resolved \<lparr>transactions = [],
                            errors = [\<lparr>row = None,
                                       message = ''PDF parsing failed: '' @ errorMessage ''Unknown PDF parsing error'' e,
                                       severity = error\<rparr>]\<rparr>))"

section \<open>The CSV path\<close>

definition TRANSACTION_CATEGORIES :: "(string \<times> string list) list" where
  \<comment> \<open>the entries in the order \<open>Object.entries\<close> lists them\<close>
  "TRANSACTION_CATEGORIES =
     [(''food'', [''restaurant'', ''food'', ''cafe'', ''zomato'', ''swiggy'', ''dominos'', ''pizza'', ''mcdonald'']),
      (''transport'', [''uber'', ''ola'', ''metro'', ''bus'', ''taxi'', ''petrol'', ''fuel'', ''parking'']),
      (''shopping'', [''amazon'', ''flipkart'', ''mall'', ''store'', ''shop'', ''clothing'', ''electronics'']),
      (''utilities'', [''electricity'', ''water'', ''gas'', ''internet'', ''mobile'', ''phone'', ''broadband'']),
      (''entertainment'', [''movie'', ''cinema'', ''netflix'', ''spotify'', ''game'', ''theatre'', ''concert'']),
      (''healthcare'', [''hospital'', ''clinic'', ''pharmacy'', ''medical'', ''doctor'', ''medicine'']),
      (''education'', [''school'', ''college'', ''university'', ''course'', ''books'', ''fees'']),
      (''groceries'', [''grocery'', ''supermarket'', ''vegetables'', ''milk'', ''bread'', ''provisions''])]"

definition to_upper_char :: "char \<Rightarrow> char" where
  "to_upper_char c =
     (let n = (of_char c :: nat)
      in if (97 \<le> n \<and> n \<le> 122) \<or> (224 \<le> n \<and> n \<le> 254 \<and> n \<noteq> 247)
         then char_of (n - 32) else c)"

definition capitalize :: "string \<Rightarrow> string" where
  \<comment> \<open>\<open>category.charAt(0).toUpperCase() + category.slice(1)\<close>\<close>
  "capitalize s = (case s of [] \<Rightarrow> [] | c # cs \<Rightarrow> to_upper_char c # cs)"

definition categorizeParsedTransaction :: "string \<Rightarrow> string" where
  "categorizeParsedTransaction description' =
     (let lowerDescription = toLowerCase description'
      in case find (\<lambda>(category', keywords). list_ex (str_includes lowerDescription) keywords)
                TRANSACTION_CATEGORIES of
           Some (category', keywords) \<Rightarrow> capitalize category'
         | None \<Rightarrow> ''Other'')"

fun getField :: "string list \<Rightarrow> string list \<Rightarrow> string list \<Rightarrow> string" where
  "getField row' headers [] = []"
| "getField row' headers (name # names) =
     (let index = findIndex (\<lambda>h. str_includes (toLowerCase h) (toLowerCase name)) headers
      in if index \<noteq> - 1 \<and> nat index < length row' \<and> row' ! nat index \<noteq> []
         then trim (row' ! nat index)
         else getField row' headers names)"

definition parseCSVTransaction :: "(string \<Rightarrow> thrown + string) \<Rightarrow> string \<Rightarrow> string list \<Rightarrow> string list
    \<Rightarrow> thrown + ParsedTransaction" where
  \<comment> \<open>\<open>toISO d\<close> is \<open>new Date(d).toISOString()\<close>, which throws on a date the engine cannot
      read; \<open>new_id\<close> is the id built from the clock and the random source\<close>
  "parseCSVTransaction toISO new_id row' headers =
     (let date' = getField row' headers [''date'', ''transaction date'', ''value date''];
          description' = getField row' headers [''description'', ''particulars'', ''narration'', ''details''];
          debitAmount = getField row' headers [''debit'', ''withdrawal'', ''debit amount''];
          creditAmount = getField row' headers [''credit'', ''deposit'', ''credit amount''];
          balance' = getField row' headers [''balance'', ''running balance'', ''available balance''];
          reference' = getField row' headers [''reference'', ''ref no'', ''transaction id'', ''cheque no''];
          isCredit = (creditAmount \<noteq> [] \<and> js_gt (parseFloat creditAmount) (Num 0));
          amount' = js_or (parseFloat (if isCredit then creditAmount else debitAmount)) (Num 0)
      in case toISO date' of
           Inl e \<Rightarrow> Inl e
         | Inr isoDate \<Rightarrow>
             Inr \<lparr>tx_id = new_id,
                  date = isoDate,
                  description = (if description' = [] then ''Unknown Transaction'' else description'),
                  amount = js_abs amount',
                  tx_type = (if isCredit then credit else debit),
                  category = categorizeParsedTransaction description',
                  balance = (if balance' \<noteq> [] then Some (parseFloat balance') else None),
                  reference = (if reference' \<noteq> [] then Some reference' else None),
                  isReconciled = False,
                  confidence = (if description' \<noteq> [] \<and> js_gt amount' (Num 0) then 9 / 10 else 5 / 10)\<rparr>)"

definition cells :: "string \<Rightarrow> string list" where
  \<comment> \<open>\<open>line.split(',').map(cell => cell.trim().replace(/['"]/g, ''))\<close>\<close>
  "cells line = map (\<lambda>cell. filter (\<lambda>c. c \<noteq> CHR 0x27 \<and> c \<noteq> CHR 0x22) (trim cell))
                  (split_on (\<lambda>c. c = CHR '','') line)"

definition csv_row :: "(string \<Rightarrow> thrown + string) \<Rightarrow> (nat \<Rightarrow> string) \<Rightarrow> string list
    \<Rightarrow> parse_result \<Rightarrow> nat \<times> string \<Rightarrow> parse_result" where
  \<comment> \<open>the body of the row loop at line index \<open>i\<close>\<close>
  "csv_row toISO new_id headers acc il =
     (let i = fst il; row' = cells (snd il)
      in if length row' \<noteq> length headers
         then acc\<lparr>errors := errors acc @
                [\<lparr>row = Some (i + 1),
                  message = ''Row has '' @ show_int (int (length row')) @ '' columns but expected ''
                            @ show_int (int (length headers)),
                  severity = warning\<rparr>]\<rparr>
         else (case parseCSVTransaction toISO (new_id i) row' headers of
                 Inl e \<Rightarrow> acc\<lparr>errors := errors acc @
                            [\<lparr>row = Some (i + 1),
                              message = ''Failed to parse row: '' @ errorMessage ''Unknown error'' e,
                              severity = error\<rparr>]\<rparr>
               | Inr transaction \<Rightarrow>
                   if js_gt (amount transaction) (Num 0)
                   then acc\<lparr>transactions := transactions acc @ [transaction]\<rparr>
                   else acc\<lparr>errors := errors acc @
                          [\<lparr>row = Some (i + 1),
                            message = ''Unable to parse transaction amount'',
                            severity = warning\<rparr>]\<rparr>))"

definition parseCSVFile :: "(string \<Rightarrow> thrown + string) \<Rightarrow> (nat \<Rightarrow> string) \<Rightarrow> string \<Rightarrow> parse_result" where
  \<comment> \<open>\<open>csv\<close> is the text the file reader hands to \<open>onload\<close>\<close>
  "parseCSVFile toISO new_id csv =
     (let lines = filter (\<lambda>line. line \<noteq> []) (map trim (split_on (\<lambda>c. c = CHR 0x0A) csv))
      in if length lines < 2
         then \<lparr>transactions = [],
               errors = [\<lparr>row = None,
                          message = ''CSV file must contain at least a header and one data row'',
                          severity = error\<rparr>]\<rparr>
         else (let headers = cells (hd lines)
               in foldl (csv_row toISO new_id headers) \<lparr>transactions = [], errors = []\<rparr>
                    (enumerate 1 (tl lines))))"

section \<open>Notions the statements use\<close>

text \<open>The result the \<open>catch\<close> block of the orchestrator builds from a thrown message.\<close>

definition failure :: "string \<Rightarrow> parse_result promise" where
  "failure m = Resolved \<lparr>transactions = [],
                 errors = [\<lparr>row = None, message = ''PDF parsing failed: '' @ m, severity = error\<rparr>]\<rparr>"




section \<open>Loops that push transactions\<close>

lemma foldl_push_row_inv:
  assumes body: "\<And>n x tx. x \<in> set xs \<Longrightarrow> body n x = Some tx \<Longrightarrow> P tx"
    and acc: "\<forall>tx\<in>set acc. P tx"
  shows "\<forall>tx\<in>set (foldl (push_row body) acc xs). P tx"
  using assms
proof (induction xs arbitrary: acc)
  case Nil
  then show ?case by simp
next
  case (Cons x xs)
  have step: "\<forall>tx\<in>set (push_row body acc x). P tx"
    using Cons.prems by (auto simp: push_row_def split: option.splits)
  have rest: "\<And>n y tx. y \<in> set xs \<Longrightarrow> body n y = Some tx \<Longrightarrow> P tx"
    by (rule Cons.prems(1)) auto
  show ?case
    using Cons.IH [OF rest step] by simp
qed

lemma tabular_rows_from_lines:
  assumes "\<And>n raw tx. raw \<in> set lines \<Longrightarrow> tabular_row today patterns n raw = Some tx \<Longrightarrow> P tx"
  shows "\<forall>tx\<in>set (parseTabularFormat today lines patterns). P tx"
  unfolding parseTabularFormat_def Let_def
proof (rule foldl_push_row_inv)
  fix n x tx
  assume "x \<in> set (drop (if headerLine lines patterns = - 1 then 0 else nat (headerLine lines patterns + 1)) lines)"
    and "tabular_row today patterns n x = Some tx"
  then show "P tx" using assms by (meson in_set_dropD)
qed simp

section \<open>Rounding to a double\<close>

text \<open>
  The rounding on sample inputs: an exact amount, an integer beyond 53 bits, an overflow,
  and an underflow to zero, which makes a credit cell of \<open>1e-400\<close> count as no credit.
\<close>

lemma parseFloat_rounds:
  "parseFloat ''500.00'' = Num 500"
  "parseFloat ''9007199254740993'' = Num 9007199254740992"
  "parseFloat ''1e400'' = PosInf"
  "parseFloat ''1e-400'' = Num 0"
  by code_simp+

lemma underflowing_credit_is_debit:
  "map_sum id (\<lambda>tx. (amount tx, tx_type tx))
     (parseCSVTransaction (\<lambda>d. Inr d) ''parsed_1_x'' [''01/04/2024'', ''ATM WDL'', ''500'', ''1e-400'', ''1200'']
        [''Date'', ''Narration'', ''Debit'', ''Credit'', ''Balance''])
   = Inr (Num 500, debit)"
  by code_simp

section \<open>Matches of the amount pattern are numbers\<close>

lemma js_abs_ge0: "x \<noteq> NaN \<Longrightarrow> js_ge (js_abs x) (Num 0)"
  by (cases x) (simp_all add: js_ge_def)

lemma match_all_elem:
  "m \<in> set (match_all r s) \<Longrightarrow> \<exists>t n. r t = Some n \<and> m = take n t"
proof (induction r s rule: match_all.induct)
  case (1 r)
  show ?case
  proof (cases "r []")
    case None
    with 1 show ?thesis by simp
  next
    case (Some k)
    with 1 have "r [] = Some k \<and> m = take k []" by simp
    then show ?thesis by blast
  qed
next
  case (2 r c cs)
  show ?case
  proof (cases "r (c # cs)")
    case None
    with 2 show ?thesis by simp
  next
    case (Some n)
    with 2 show ?thesis by auto
  qed
qed

lemma digit_facts:
  "is_digit d \<Longrightarrow> \<not> is_space d \<and> \<not> is_sign d \<and> d \<noteq> CHR ''I'' \<and> d \<noteq> CHR '',''
     \<and> d \<noteq> CHR ''/'' \<and> d \<noteq> CHR ''-''"
  by (auto simp: is_digit_def is_space_def is_sign_def)

lemma sign_facts: "is_sign c \<Longrightarrow> \<not> is_space c \<and> c \<noteq> CHR '',''"
  by (auto simp: is_sign_def is_space_def)

lemma takeWhile_take_pos:
  "length (takeWhile P (take k xs)) \<noteq> 0 \<Longrightarrow> \<exists>x xs'. xs = x # xs' \<and> P x"
  by (cases xs; cases k) (auto split: if_splits)

lemma amount_rx_shape:
  assumes "amount_rx t = Some n"
  shows "(\<exists>d r. take n t = d # r \<and> is_digit d)
       \<or> (\<exists>c d r. take n t = c # d # r \<and> is_sign c \<and> is_digit d)"
proof (cases t)
  case Nil
  with assms show ?thesis by (simp add: amount_rx_def)
next
  case (Cons c cs)
  show ?thesis
  proof (cases "is_sign c")
    case True
    from assms Cons True have pos: "length (takeWhile is_digit (take 3 cs)) \<noteq> 0"
      and n: "1 + length (takeWhile is_digit (take 3 cs)) \<le> n"
      by (auto simp: amount_rx_def Let_def split: if_splits)
    from takeWhile_take_pos [OF pos] obtain d r where cs: "cs = d # r" and d: "is_digit d"
      by blast
    from n pos obtain k where "n = Suc (Suc k)"
      by (cases n; cases "n - 1") auto
    with Cons cs True d show ?thesis by auto
  next
    case False
    from assms Cons False have pos: "length (takeWhile is_digit (take 3 (c # cs))) \<noteq> 0"
      and n: "length (takeWhile is_digit (take 3 (c # cs))) \<le> n"
      by (auto simp: amount_rx_def Let_def split: if_splits)
    from takeWhile_take_pos [OF pos] have d: "is_digit c" by auto
    from n pos obtain k where "n = Suc k" by (cases n) auto
    with Cons d show ?thesis by auto
  qed
qed

lemma remove_commas_Cons: "c \<noteq> CHR '','' \<Longrightarrow> remove_commas (c # cs) = c # remove_commas cs"
  by (simp add: remove_commas_def one_char_def)

lemma to_double_not_NaN: "to_double p q \<noteq> NaN"
  by (simp add: to_double_def Let_def)

lemma js_neg_not_NaN: "x \<noteq> NaN \<Longrightarrow> js_neg x \<noteq> NaN"
  by (cases x) simp_all

lemma parseFloat_digit: "is_digit d \<Longrightarrow> parseFloat (d # r) \<noteq> NaN"
  using digit_facts [of d]
  by (auto simp: parseFloat_def Let_def startsWith_def to_double_not_NaN js_neg_not_NaN)

lemma parseFloat_sign_digit: "is_sign c \<Longrightarrow> is_digit d \<Longrightarrow> parseFloat (c # d # r) \<noteq> NaN"
  using digit_facts [of d] sign_facts [of c]
  by (auto simp: parseFloat_def Let_def startsWith_def to_double_not_NaN js_neg_not_NaN)

lemma amount_match_parses:
  assumes "m \<in> set (match_all amount_rx s)"
  shows "parseFloat (remove_commas m) \<noteq> NaN"
proof -
  from match_all_elem [OF assms] obtain t n where "amount_rx t = Some n" and m: "m = take n t"
    by blast
  from amount_rx_shape [OF this(1)] show ?thesis
  proof
    assume "\<exists>d r. take n t = d # r \<and> is_digit d"
    then obtain d r where "m = d # r" "is_digit d" using m by auto
    then show ?thesis using digit_facts [of d] by (simp add: remove_commas_Cons parseFloat_digit)
  next
    assume "\<exists>c d r. take n t = c # d # r \<and> is_sign c \<and> is_digit d"
    then obtain c d r where "m = c # d # r" "is_sign c" "is_digit d" using m by auto
    then show ?thesis using digit_facts [of d] sign_facts [of c]
      by (simp add: remove_commas_Cons parseFloat_sign_digit)
  qed
qed

lemma window_row_amount:
  assumes "window_row today patterns lines n i = Some tx" and "amountPattern patterns = amount_rx"
  shows "js_ge (amount tx) (Num 0)"
proof -
  let ?c = "trim (lines ! i) @ '' '' @ trim (lines ! (i + 1)) @ '' '' @ trim (lines ! (i + 2))"
  from assms have ne: "match_all amount_rx ?c \<noteq> []"
    and a: "amount tx = js_abs (parseFloat (remove_commas (hd (match_all amount_rx ?c))))"
    by (auto simp: window_row_def Let_def split: if_splits)
  from ne have "hd (match_all amount_rx ?c) \<in> set (match_all amount_rx ?c)" by simp
  from amount_match_parses [OF this] a show ?thesis by (simp add: js_abs_ge0)
qed

section \<open>Rows of the other paths\<close>

lemma js_or_zero: "js_or x (Num 0) \<noteq> NaN"
  by (simp add: js_or_def truthy_def)

lemma pick_amount_not_NaN: "pick_amount xs \<noteq> NaN"
  by (simp add: pick_amount_def js_or_zero)
lemma csv_amount:
  "parseCSVTransaction toISO new_id row' headers = Inr tx \<Longrightarrow> js_ge (amount tx) (Num 0)"
  by (auto simp: parseCSVTransaction_def Let_def js_abs_ge0 js_or_zero split: sum.splits simp del: getField.simps)

lemma tabular_row_amount:
  "tabular_row today patterns n raw = Some tx \<Longrightarrow> js_ge (amount tx) (Num 0)"
  by (auto simp: tabular_row_def Let_def js_abs_ge0 pick_amount_not_NaN split: if_splits)

lemma regex_row_amount:
  "regex_row today patterns n raw = Some tx \<Longrightarrow> js_ge (amount tx) (Num 0)"
  by (auto simp: regex_row_def Let_def js_abs_ge0 pick_amount_not_NaN split: if_splits)

lemma tabular_row_description:
  "tabular_row today patterns n raw = Some tx \<Longrightarrow>
     length (description tx) \<le> 103 \<and>
     (100 < length (description tx) \<longrightarrow>
        length (description tx) = 103 \<and> drop 100 (description tx) = ''...'')"
  by (auto simp: tabular_row_def Let_def split: if_splits)

section \<open>Matches of a date pattern have three numeric parts\<close>













section \<open>The line-grouped strategy never classifies\<close>

lemma window_row_category:
  "window_row today patterns lines n i = Some tx \<Longrightarrow> category tx = ''other''"
  by (auto simp: window_row_def Let_def split: if_splits)

text \<open>
  C10. Every transaction the line-grouped strategy emits has the category \<open>other\<close>,
  whatever its description says: the window loop writes the constant and the keyword
  classifier takes no part in it.
\<close>

theorem line_grouped_category_other:
  "\<forall>tx\<in>set (parseLineByLineFormat today lines patterns). category tx = ''other''"
  unfolding parseLineByLineFormat_def
  by (rule foldl_push_row_inv) (auto dest: window_row_category)

lemma line_grouped_swiggy:
  "parseLineByLineFormat ''2026-11-02'' [''SWIGGY ORDER'', ''01/04/2024'', ''250.00''] (BANK_PATTERNS hdfc)
   = [\<lparr>tx_id = ''temp-0'', date = ''2024-04-01'', description = ''SWIGGY ORDER'', amount = Num 1,
        tx_type = credit, category = ''other'', balance = None, reference = None,
        isReconciled = False, confidence = 7 / 10\<rparr>]"
  by code_simp

lemma swiggy_is_food: "categorizeTransaction ''SWIGGY ORDER'' = ''food''"
  by code_simp

theorem line_grouped_category_other_witness:
  "map description (parseLineByLineFormat ''2026-11-02'' [''SWIGGY ORDER'', ''01/04/2024'', ''250.00'']
      (BANK_PATTERNS hdfc)) = [''SWIGGY ORDER'']
   \<and> map category (parseLineByLineFormat ''2026-11-02'' [''SWIGGY ORDER'', ''01/04/2024'', ''250.00'']
      (BANK_PATTERNS hdfc)) = [''other'']
   \<and> categorizeTransaction ''SWIGGY ORDER'' = ''food''"
  using line_grouped_category_other [of "''2026-11-02''" "[''SWIGGY ORDER'', ''01/04/2024'', ''250.00'']"
      "BANK_PATTERNS hdfc"]
  unfolding line_grouped_swiggy
  by (simp add: swiggy_is_food)

section \<open>Amounts are magnitudes\<close>

lemma tabular_row_sign:
  assumes "tabular_row today patterns n raw = Some tx"
  shows "amount tx = js_abs (pick_amount (map (\<lambda>m. parseFloat (remove_commas m))
             (match_all (amountPattern patterns) (trim raw))))
       \<and> js_ge (amount tx) (Num 0)
       \<and> tx_type tx =
           (if js_lt (pick_amount (map (\<lambda>m. parseFloat (remove_commas m))
                 (match_all (amountPattern patterns) (trim raw)))) (Num 0) then debit
            else if str_includes (toLowerCase (trim raw)) ''dr''
                  \<or> str_includes (toLowerCase (trim raw)) ''debit'' then debit
            else credit)"
  using assms tabular_row_amount [OF assms]
  by (auto simp: tabular_row_def Let_def line_type_def split: if_splits)

lemma regex_row_sign:
  assumes "regex_row today patterns n raw = Some tx"
  shows "amount tx = js_abs (pick_amount (map (\<lambda>m. parseFloat (remove_commas m))
             (match_all (amountPattern patterns) raw)))
       \<and> js_ge (amount tx) (Num 0)
       \<and> tx_type tx =
           (if js_lt (pick_amount (map (\<lambda>m. parseFloat (remove_commas m))
                 (match_all (amountPattern patterns) raw))) (Num 0) then debit
            else if str_includes (toLowerCase raw) ''dr''
                  \<or> str_includes (toLowerCase raw) ''debit'' then debit
            else credit)"
  using assms regex_row_amount [OF assms]
  by (auto simp: regex_row_def Let_def line_type_def split: if_splits)

lemma window_row_sign:
  assumes "window_row today patterns lines n i = Some tx" and "amountPattern patterns = amount_rx"
  shows "amount tx = js_abs (parseFloat (remove_commas (hd (match_all (amountPattern patterns)
             (trim (lines ! i) @ '' '' @ trim (lines ! (i + 1)) @ '' '' @ trim (lines ! (i + 2)))))))
       \<and> js_ge (amount tx) (Num 0)
       \<and> tx_type tx =
           (if js_lt (parseFloat (remove_commas (hd (match_all (amountPattern patterns)
                 (trim (lines ! i) @ '' '' @ trim (lines ! (i + 1)) @ '' '' @ trim (lines ! (i + 2)))))))
                 (Num 0)
            then debit else credit)"
  using assms(1) window_row_amount [OF assms]
  by (auto simp: window_row_def Let_def split: if_splits)

lemma csv_sign:
  assumes "parseCSVTransaction toISO new_id row' headers = Inr tx"
  shows "amount tx =
           js_abs (js_or (parseFloat
             (if getField row' headers [''credit'', ''deposit'', ''credit amount''] \<noteq> []
                 \<and> js_gt (parseFloat (getField row' headers [''credit'', ''deposit'', ''credit amount''])) (Num 0)
              then getField row' headers [''credit'', ''deposit'', ''credit amount'']
              else getField row' headers [''debit'', ''withdrawal'', ''debit amount''])) (Num 0))
       \<and> js_ge (amount tx) (Num 0)
       \<and> tx_type tx =
           (if getField row' headers [''credit'', ''deposit'', ''credit amount''] \<noteq> []
               \<and> js_gt (parseFloat (getField row' headers [''credit'', ''deposit'', ''credit amount''])) (Num 0)
            then credit else debit)"
proof (cases "toISO (getField row' headers [''date'', ''transaction date'', ''value date''])")
  case (Inl e)
  with assms show ?thesis by (simp add: parseCSVTransaction_def Let_def del: getField.simps)
next
  case (Inr d)
  with assms csv_amount [OF assms] show ?thesis
    by (auto simp: parseCSVTransaction_def Let_def simp del: getField.simps)
qed

lemma bank_amount_pattern: "amountPattern (BANK_PATTERNS b) = amount_rx"
  by (cases b) simp_all

text \<open>
  C6. On every parsing path (the tabular, line-grouped and regex strategies under each of
  the five bank profiles, and the CSV row parser) an emitted transaction comes from a
  line, window or row whose parsed, signed value \<open>a\<close> gives both fields: the amount is
  the magnitude of \<open>a\<close>, a number that is at least 0, and the direction is a field of its
  own. On the tabular and regex paths a negative \<open>a\<close> gives debit, and otherwise the cues
  \<open>dr\<close> and \<open>debit\<close> in the line give debit and everything else credit; on the
  line-grouped path the sign of \<open>a\<close> alone decides; on the CSV path a credit cell with a
  value above 0 gives credit and everything else debit.
\<close>

theorem amounts_never_negative:
  "(\<forall>tx\<in>set (parseTabularFormat today lines (BANK_PATTERNS b)). \<exists>raw\<in>set lines.
       amount tx = js_abs (pick_amount (map (\<lambda>m. parseFloat (remove_commas m))
             (match_all (amountPattern (BANK_PATTERNS b)) (trim raw))))
       \<and> js_ge (amount tx) (Num 0)
       \<and> tx_type tx =
           (if js_lt (pick_amount (map (\<lambda>m. parseFloat (remove_commas m))
                 (match_all (amountPattern (BANK_PATTERNS b)) (trim raw)))) (Num 0) then debit
            else if str_includes (toLowerCase (trim raw)) ''dr''
                  \<or> str_includes (toLowerCase (trim raw)) ''debit'' then debit
            else credit))
   \<and> (\<forall>tx\<in>set (parseLineByLineFormat today lines (BANK_PATTERNS b)). \<exists>i<length lines - 2.
       amount tx = js_abs (parseFloat (remove_commas (hd (match_all (amountPattern (BANK_PATTERNS b))
             (trim (lines ! i) @ '' '' @ trim (lines ! (i + 1)) @ '' '' @ trim (lines ! (i + 2)))))))
       \<and> js_ge (amount tx) (Num 0)
       \<and> tx_type tx =
           (if js_lt (parseFloat (remove_commas (hd (match_all (amountPattern (BANK_PATTERNS b))
                 (trim (lines ! i) @ '' '' @ trim (lines ! (i + 1)) @ '' '' @ trim (lines ! (i + 2)))))))
                 (Num 0)
            then debit else credit))
   \<and> (\<forall>tx\<in>set (parseRegexFormat today text' (BANK_PATTERNS b)).
         \<exists>raw\<in>set (split_on (\<lambda>c. c = CHR 0x0A) text').
       amount tx = js_abs (pick_amount (map (\<lambda>m. parseFloat (remove_commas m))
             (match_all (amountPattern (BANK_PATTERNS b)) raw)))
       \<and> js_ge (amount tx) (Num 0)
       \<and> tx_type tx =
           (if js_lt (pick_amount (map (\<lambda>m. parseFloat (remove_commas m))
                 (match_all (amountPattern (BANK_PATTERNS b)) raw))) (Num 0) then debit
            else if str_includes (toLowerCase raw) ''dr''
                  \<or> str_includes (toLowerCase raw) ''debit'' then debit
            else credit))
   \<and> (\<forall>tx. parseCSVTransaction toISO new_id row' headers = Inr tx \<longrightarrow>
       amount tx =
           js_abs (js_or (parseFloat
             (if getField row' headers [''credit'', ''deposit'', ''credit amount''] \<noteq> []
                 \<and> js_gt (parseFloat (getField row' headers [''credit'', ''deposit'', ''credit amount''])) (Num 0)
              then getField row' headers [''credit'', ''deposit'', ''credit amount'']
              else getField row' headers [''debit'', ''withdrawal'', ''debit amount''])) (Num 0))
       \<and> js_ge (amount tx) (Num 0)
       \<and> tx_type tx =
           (if getField row' headers [''credit'', ''deposit'', ''credit amount''] \<noteq> []
               \<and> js_gt (parseFloat (getField row' headers [''credit'', ''deposit'', ''credit amount''])) (Num 0)
            then credit else debit))"
proof (intro conjI)
  show "\<forall>tx\<in>set (parseTabularFormat today lines (BANK_PATTERNS b)). \<exists>raw\<in>set lines.
       amount tx = js_abs (pick_amount (map (\<lambda>m. parseFloat (remove_commas m))
             (match_all (amountPattern (BANK_PATTERNS b)) (trim raw))))
       \<and> js_ge (amount tx) (Num 0)
       \<and> tx_type tx =
           (if js_lt (pick_amount (map (\<lambda>m. parseFloat (remove_commas m))
                 (match_all (amountPattern (BANK_PATTERNS b)) (trim raw)))) (Num 0) then debit
            else if str_includes (toLowerCase (trim raw)) ''dr''
                  \<or> str_includes (toLowerCase (trim raw)) ''debit'' then debit
            else credit)"
  proof (rule tabular_rows_from_lines)
    fix n raw tx
    assume "raw \<in> set lines" and "tabular_row today (BANK_PATTERNS b) n raw = Some tx"
    then show "\<exists>raw\<in>set lines.
       amount tx = js_abs (pick_amount (map (\<lambda>m. parseFloat (remove_commas m))
             (match_all (amountPattern (BANK_PATTERNS b)) (trim raw))))
       \<and> js_ge (amount tx) (Num 0)
       \<and> tx_type tx =
           (if js_lt (pick_amount (map (\<lambda>m. parseFloat (remove_commas m))
                 (match_all (amountPattern (BANK_PATTERNS b)) (trim raw)))) (Num 0) then debit
            else if str_includes (toLowerCase (trim raw)) ''dr''
                  \<or> str_includes (toLowerCase (trim raw)) ''debit'' then debit
            else credit)"
      using tabular_row_sign by blast
  qed
next
  show "\<forall>tx\<in>set (parseLineByLineFormat today lines (BANK_PATTERNS b)). \<exists>i<length lines - 2.
       amount tx = js_abs (parseFloat (remove_commas (hd (match_all (amountPattern (BANK_PATTERNS b))
             (trim (lines ! i) @ '' '' @ trim (lines ! (i + 1)) @ '' '' @ trim (lines ! (i + 2)))))))
       \<and> js_ge (amount tx) (Num 0)
       \<and> tx_type tx =
           (if js_lt (parseFloat (remove_commas (hd (match_all (amountPattern (BANK_PATTERNS b))
                 (trim (lines ! i) @ '' '' @ trim (lines ! (i + 1)) @ '' '' @ trim (lines ! (i + 2)))))))
                 (Num 0)
            then debit else credit)"
    unfolding parseLineByLineFormat_def
  proof (rule foldl_push_row_inv)
    fix n i tx
    assume i: "i \<in> set [0..<length lines - 2]"
      and row: "window_row today (BANK_PATTERNS b) lines n i = Some tx"
    from i have "i < length lines - 2" by simp
    moreover note window_row_sign [OF row bank_amount_pattern]
    ultimately show "\<exists>i<length lines - 2.
       amount tx = js_abs (parseFloat (remove_commas (hd (match_all (amountPattern (BANK_PATTERNS b))
             (trim (lines ! i) @ '' '' @ trim (lines ! (i + 1)) @ '' '' @ trim (lines ! (i + 2)))))))
       \<and> js_ge (amount tx) (Num 0)
       \<and> tx_type tx =
           (if js_lt (parseFloat (remove_commas (hd (match_all (amountPattern (BANK_PATTERNS b))
                 (trim (lines ! i) @ '' '' @ trim (lines ! (i + 1)) @ '' '' @ trim (lines ! (i + 2)))))))
                 (Num 0)
            then debit else credit)" by blast
  qed simp
next
  show "\<forall>tx\<in>set (parseRegexFormat today text' (BANK_PATTERNS b)).
         \<exists>raw\<in>set (split_on (\<lambda>c. c = CHR 0x0A) text').
       amount tx = js_abs (pick_amount (map (\<lambda>m. parseFloat (remove_commas m))
             (match_all (amountPattern (BANK_PATTERNS b)) raw)))
       \<and> js_ge (amount tx) (Num 0)
       \<and> tx_type tx =
           (if js_lt (pick_amount (map (\<lambda>m. parseFloat (remove_commas m))
                 (match_all (amountPattern (BANK_PATTERNS b)) raw))) (Num 0) then debit
            else if str_includes (toLowerCase raw) ''dr''
                  \<or> str_includes (toLowerCase raw) ''debit'' then debit
            else credit)"
    unfolding parseRegexFormat_def Let_def
  proof (rule foldl_push_row_inv)
    fix n raw tx
    assume raw: "raw \<in> set (filter (\<lambda>line. trim line \<noteq> []) (split_on (\<lambda>c. c = CHR 0x0A) text'))"
      and row: "regex_row today (BANK_PATTERNS b) n raw = Some tx"
    from raw have "raw \<in> set (split_on (\<lambda>c. c = CHR 0x0A) text')" by simp
    moreover note regex_row_sign [OF row]
    ultimately show "\<exists>raw\<in>set (split_on (\<lambda>c. c = CHR 0x0A) text').
       amount tx = js_abs (pick_amount (map (\<lambda>m. parseFloat (remove_commas m))
             (match_all (amountPattern (BANK_PATTERNS b)) raw)))
       \<and> js_ge (amount tx) (Num 0)
       \<and> tx_type tx =
           (if js_lt (pick_amount (map (\<lambda>m. parseFloat (remove_commas m))
                 (match_all (amountPattern (BANK_PATTERNS b)) raw))) (Num 0) then debit
            else if str_includes (toLowerCase raw) ''dr''
                  \<or> str_includes (toLowerCase raw) ''debit'' then debit
            else credit)" by blast
  qed simp
next
  show "\<forall>tx. parseCSVTransaction toISO new_id row' headers = Inr tx \<longrightarrow>
       amount tx =
           js_abs (js_or (parseFloat
             (if getField row' headers [''credit'', ''deposit'', ''credit amount''] \<noteq> []
                 \<and> js_gt (parseFloat (getField row' headers [''credit'', ''deposit'', ''credit amount''])) (Num 0)
              then getField row' headers [''credit'', ''deposit'', ''credit amount'']
              else getField row' headers [''debit'', ''withdrawal'', ''debit amount''])) (Num 0))
       \<and> js_ge (amount tx) (Num 0)
       \<and> tx_type tx =
           (if getField row' headers [''credit'', ''deposit'', ''credit amount''] \<noteq> []
               \<and> js_gt (parseFloat (getField row' headers [''credit'', ''deposit'', ''credit amount''])) (Num 0)
            then credit else debit)"
    using csv_sign by blast
qed

lemma tabular_debit_line:
  "map (\<lambda>tx. (amount tx, tx_type tx))
     (parseTabularFormat ''2026-11-02'' [''01/04/2024 ATM WDL -1,500.00''] (BANK_PATTERNS hdfc))
   = [(Num 1500, debit)]"
  by code_simp

lemma line_grouped_debit_lines:
  "map (\<lambda>tx. (amount tx, tx_type tx))
     (parseLineByLineFormat ''2026-11-02'' [''ATM WDL -250.00'', ''on 01/04/2024'', ''ref'']
        (BANK_PATTERNS hdfc))
   = [(Num 250, debit)]"
  by code_simp

lemma regex_debit_line:
  "map (\<lambda>tx. (amount tx, tx_type tx))
     (parseRegexFormat ''2026-11-02'' ''01/04/2024 ATM WDL -1,500.00'' (BANK_PATTERNS hdfc))
   = [(Num 1500, debit)]"
  by code_simp

lemma csv_debit_row:
  "parseCSVTransaction (\<lambda>d. Inr d) ''parsed_1_x'' [''01/04/2024'', ''ATM WDL'', ''-500'', '''', ''1200'']
     [''Date'', ''Narration'', ''Debit'', ''Credit'', ''Balance'']
   = Inr \<lparr>tx_id = ''parsed_1_x'', date = ''01/04/2024'', description = ''ATM WDL'', amount = Num 500,
          tx_type = debit, category = ''Other'', balance = Some (Num 1200), reference = None,
          isReconciled = False, confidence = 5 / 10\<rparr>"
  by code_simp

lemma signed_values:
  "pick_amount (map (\<lambda>m. parseFloat (remove_commas m))
     (match_all (amountPattern (BANK_PATTERNS hdfc)) (trim ''01/04/2024 ATM WDL -1,500.00''))) = Num (- 1500)"
  "parseFloat (remove_commas (hd (match_all (amountPattern (BANK_PATTERNS hdfc))
     (trim ''ATM WDL -250.00'' @ '' '' @ trim ''on 01/04/2024'' @ '' '' @ trim ''ref'')))) = Num (- 250)"
  "pick_amount (map (\<lambda>m. parseFloat (remove_commas m))
     (match_all (amountPattern (BANK_PATTERNS hdfc)) ''01/04/2024 ATM WDL -1,500.00'')) = Num (- 1500)"
  "parseFloat ''-500'' = Num (- 500)"
  by code_simp+

theorem amounts_never_negative_witness:
  "map (\<lambda>tx. (amount tx, tx_type tx))
     (parseTabularFormat ''2026-11-02'' [''01/04/2024 ATM WDL -1,500.00''] (BANK_PATTERNS hdfc))
     = [(Num 1500, debit)]
   \<and> map (\<lambda>tx. (amount tx, tx_type tx))
     (parseLineByLineFormat ''2026-11-02'' [''ATM WDL -250.00'', ''on 01/04/2024'', ''ref'']
        (BANK_PATTERNS hdfc))
     = [(Num 250, debit)]
   \<and> map (\<lambda>tx. (amount tx, tx_type tx))
     (parseRegexFormat ''2026-11-02'' ''01/04/2024 ATM WDL -1,500.00'' (BANK_PATTERNS hdfc))
     = [(Num 1500, debit)]
   \<and> map_sum id (\<lambda>tx. (amount tx, tx_type tx))
       (parseCSVTransaction (\<lambda>d. Inr d) ''parsed_1_x'' [''01/04/2024'', ''ATM WDL'', ''-500'', '''', ''1200'']
         [''Date'', ''Narration'', ''Debit'', ''Credit'', ''Balance''])
     = Inr (Num 500, debit)
   \<and> js_ge (Num 1500) (Num 0) \<and> js_ge (Num 250) (Num 0) \<and> js_ge (Num 500) (Num 0)"
proof -
  define P where "P = BANK_PATTERNS hdfc"
  define l1 where "l1 = ''01/04/2024 ATM WDL -1,500.00''"
  define ls where "ls = [''ATM WDL -250.00'', ''on 01/04/2024'', ''ref'']"
  define r where "r = [''01/04/2024'', ''ATM WDL'', ''-500'', '''', ''1200'']"
  define h where "h = [''Date'', ''Narration'', ''Debit'', ''Credit'', ''Balance'']"
  have e1: "map (\<lambda>tx. (amount tx, tx_type tx)) (parseTabularFormat ''2026-11-02'' [l1] P) = [(Num 1500, debit)]"
    unfolding P_def l1_def by (rule tabular_debit_line)
  have e2: "map (\<lambda>tx. (amount tx, tx_type tx)) (parseLineByLineFormat ''2026-11-02'' ls P) = [(Num 250, debit)]"
    unfolding P_def ls_def by (rule line_grouped_debit_lines)
  have e3: "map (\<lambda>tx. (amount tx, tx_type tx)) (parseRegexFormat ''2026-11-02'' l1 P) = [(Num 1500, debit)]"
    unfolding P_def l1_def by (rule regex_debit_line)
  have e4: "parseCSVTransaction (\<lambda>d. Inr d) ''parsed_1_x'' r h
      = Inr \<lparr>tx_id = ''parsed_1_x'', date = ''01/04/2024'', description = ''ATM WDL'', amount = Num 500,
          tx_type = debit, category = ''Other'', balance = Some (Num 1200), reference = None,
          isReconciled = False, confidence = 5 / 10\<rparr>"
    unfolding r_def h_def by (rule csv_debit_row)
  note th = amounts_never_negative [of "''2026-11-02''" _ hdfc _ "\<lambda>d. Inr d" "''parsed_1_x''" r h]
  from e1 obtain t1 where t1: "parseTabularFormat ''2026-11-02'' [l1] P = [t1]" "amount t1 = Num 1500"
    by auto
  then have m1: "t1 \<in> set (parseTabularFormat ''2026-11-02'' [l1] (BANK_PATTERNS hdfc))"
    unfolding P_def by simp
  from th [of "[l1]" l1, THEN conjunct1, THEN bspec, OF m1]
  have "js_ge (amount t1) (Num 0)" by blast
  then have g1: "js_ge (Num 1500) (Num 0)" by (simp only: t1(2))
  from e2 obtain t2 where t2: "parseLineByLineFormat ''2026-11-02'' ls P = [t2]" "amount t2 = Num 250"
    by auto
  then have m2: "t2 \<in> set (parseLineByLineFormat ''2026-11-02'' ls (BANK_PATTERNS hdfc))"
    unfolding P_def by simp
  from th [of ls l1, THEN conjunct2, THEN conjunct1, THEN bspec, OF m2]
  have "js_ge (amount t2) (Num 0)" by blast
  then have g2: "js_ge (Num 250) (Num 0)" by (simp only: t2(2))
  from th [of ls l1, THEN conjunct2, THEN conjunct2, THEN conjunct2, THEN spec, THEN mp, OF e4]
  have "js_ge (amount \<lparr>tx_id = ''parsed_1_x'', date = ''01/04/2024'', description = ''ATM WDL'',
          amount = Num 500, tx_type = debit, category = ''Other'', balance = Some (Num 1200),
          reference = None, isReconciled = False, confidence = 5 / 10\<rparr>) (Num 0)" by blast
  then have g3: "js_ge (Num 500) (Num 0)" by simp
  have "map (\<lambda>tx. (amount tx, tx_type tx)) (parseTabularFormat ''2026-11-02'' [l1] P)
       = [(Num 1500, debit)]
     \<and> map (\<lambda>tx. (amount tx, tx_type tx)) (parseLineByLineFormat ''2026-11-02'' ls P)
       = [(Num 250, debit)]
     \<and> map (\<lambda>tx. (amount tx, tx_type tx)) (parseRegexFormat ''2026-11-02'' l1 P)
       = [(Num 1500, debit)]
     \<and> map_sum id (\<lambda>tx. (amount tx, tx_type tx)) (parseCSVTransaction (\<lambda>d. Inr d) ''parsed_1_x'' r h)
       = Inr (Num 500, debit)
     \<and> js_ge (Num 1500) (Num 0) \<and> js_ge (Num 250) (Num 0) \<and> js_ge (Num 500) (Num 0)"
    unfolding e1 e2 e3 e4 using g1 g2 g3 by simp
  then show ?thesis unfolding P_def l1_def ls_def r_def h_def .
qed

section \<open>The length of a description\<close>

lemma tabular_row_description_eq:
  "tabular_row today patterns n raw = Some tx \<Longrightarrow>
     description tx =
       (if length (tabular_description patterns (trim raw)) > 100
        then take 100 (tabular_description patterns (trim raw)) @ ''...''
        else tabular_description patterns (trim raw))"
  by (auto simp: tabular_row_def Let_def split: if_splits)

text \<open>
  C7, as the code has it. Every transaction the tabular strategy emits comes from a line
  whose cleaned description \<open>d\<close> (the tokens after the date, amounts stripped, trimmed)
  gives the description field: \<open>d\<close> itself when \<open>d\<close> has at most 100 characters, and
  otherwise the first 100 characters of \<open>d\<close> followed by the three-character marker
  \<open>...\<close>. The field therefore has at most 103 characters, not 100.
\<close>

theorem tabular_description_bound:
  "\<forall>tx\<in>set (parseTabularFormat today lines patterns).
     (\<exists>raw\<in>set lines.
        description tx =
          (if length (tabular_description patterns (trim raw)) > 100
           then take 100 (tabular_description patterns (trim raw)) @ ''...''
           else tabular_description patterns (trim raw)))
     \<and> length (description tx) \<le> 103
     \<and> (100 < length (description tx) \<longrightarrow>
          length (description tx) = 103 \<and> drop 100 (description tx) = ''...'')"
proof (rule tabular_rows_from_lines)
  fix n raw tx
  assume raw: "raw \<in> set lines" and row: "tabular_row today patterns n raw = Some tx"
  from tabular_row_description_eq [OF row] raw
  have "\<exists>raw\<in>set lines.
        description tx =
          (if length (tabular_description patterns (trim raw)) > 100
           then take 100 (tabular_description patterns (trim raw)) @ ''...''
           else tabular_description patterns (trim raw))" by blast
  with tabular_row_description [OF row]
  show "(\<exists>raw\<in>set lines.
        description tx =
          (if length (tabular_description patterns (trim raw)) > 100
           then take 100 (tabular_description patterns (trim raw)) @ ''...''
           else tabular_description patterns (trim raw)))
     \<and> length (description tx) \<le> 103
     \<and> (100 < length (description tx) \<longrightarrow>
          length (description tx) = 103 \<and> drop 100 (description tx) = ''...'')" by blast
qed

lemma tabular_long_line:
  "map description (parseTabularFormat ''2026-11-02''
      [''01/04/2024 '' @ replicate 101 (CHR ''a'') @ '' 500.00''] (BANK_PATTERNS hdfc))
   = [replicate 100 (CHR ''a'') @ ''...'']"
  by code_simp

lemma regex_long_line:
  "map description (parseRegexFormat ''2026-11-02''
      (''01/04/2024 '' @ replicate 101 (CHR ''a'') @ '' 500.00'') (BANK_PATTERNS hdfc))
   = [replicate 101 (CHR ''a'')]"
  by code_simp

text \<open>
  A line with a 101-character description: the tabular strategy emits 103 characters,
  the regex strategy all 101.
\<close>

theorem description_over_100_counterexample:
  "map (\<lambda>tx. length (description tx)) (parseTabularFormat ''2026-11-02''
      [''01/04/2024 '' @ replicate 101 (CHR ''a'') @ '' 500.00''] (BANK_PATTERNS hdfc)) = [103]
   \<and> map (\<lambda>tx. length (description tx)) (parseRegexFormat ''2026-11-02''
      (''01/04/2024 '' @ replicate 101 (CHR ''a'') @ '' 500.00'') (BANK_PATTERNS hdfc)) = [101]"
proof -
  have "map (\<lambda>tx. length (description tx)) (parseTabularFormat ''2026-11-02''
      [''01/04/2024 '' @ replicate 101 (CHR ''a'') @ '' 500.00''] (BANK_PATTERNS hdfc))
    = map length (map description (parseTabularFormat ''2026-11-02''
      [''01/04/2024 '' @ replicate 101 (CHR ''a'') @ '' 500.00''] (BANK_PATTERNS hdfc)))"
    by (simp add: comp_def del: BANK_PATTERNS.simps)
  moreover have "map (\<lambda>tx. length (description tx)) (parseRegexFormat ''2026-11-02''
      (''01/04/2024 '' @ replicate 101 (CHR ''a'') @ '' 500.00'') (BANK_PATTERNS hdfc))
    = map length (map description (parseRegexFormat ''2026-11-02''
      (''01/04/2024 '' @ replicate 101 (CHR ''a'') @ '' 500.00'') (BANK_PATTERNS hdfc)))"
    by (simp add: comp_def del: BANK_PATTERNS.simps)
  ultimately show ?thesis
    unfolding tabular_long_line regex_long_line by simp
qed

lemma long_line_cleaned:
  "tabular_description (BANK_PATTERNS hdfc) (trim (''01/04/2024 '' @ replicate 101 (CHR ''a'') @ '' 500.00''))
   = replicate 101 (CHR ''a'')"
  by code_simp

lemma short_line_cleaned:
  "tabular_description (BANK_PATTERNS hdfc) (trim ''01/04/2024 ATM WDL 500.00'') = ''ATM WDL''"
  by code_simp

lemma tabular_short_line:
  "map description (parseTabularFormat ''2026-11-02'' [''01/04/2024 ATM WDL 500.00''] (BANK_PATTERNS hdfc))
   = [''ATM WDL'']"
  by code_simp

theorem tabular_description_bound_witness:
  "map description (parseTabularFormat ''2026-11-02''
      [''01/04/2024 '' @ replicate 101 (CHR ''a'') @ '' 500.00''] (BANK_PATTERNS hdfc))
     = [take 100 (tabular_description (BANK_PATTERNS hdfc)
          (trim (''01/04/2024 '' @ replicate 101 (CHR ''a'') @ '' 500.00''))) @ ''...'']
   \<and> length (tabular_description (BANK_PATTERNS hdfc)
          (trim (''01/04/2024 '' @ replicate 101 (CHR ''a'') @ '' 500.00''))) = 101
   \<and> map description (parseTabularFormat ''2026-11-02'' [''01/04/2024 ATM WDL 500.00''] (BANK_PATTERNS hdfc))
     = [tabular_description (BANK_PATTERNS hdfc) (trim ''01/04/2024 ATM WDL 500.00'')]
   \<and> length (tabular_description (BANK_PATTERNS hdfc) (trim ''01/04/2024 ATM WDL 500.00'')) = 7"
proof -
  define long where "long = ''01/04/2024 '' @ replicate 101 (CHR ''a'') @ '' 500.00''"
  define short where "short = ''01/04/2024 ATM WDL 500.00''"
  define P where "P = BANK_PATTERNS hdfc"
  have c1: "tabular_description P (trim long) = replicate 101 (CHR ''a'')"
    unfolding long_def P_def by (rule long_line_cleaned)
  have c2: "tabular_description P (trim short) = ''ATM WDL''"
    unfolding short_def P_def by (rule short_line_cleaned)
  have e1: "map description (parseTabularFormat ''2026-11-02'' [long] P) = [replicate 100 (CHR ''a'') @ ''...'']"
    unfolding long_def P_def by (rule tabular_long_line)
  have e2: "map description (parseTabularFormat ''2026-11-02'' [short] P) = [''ATM WDL'']"
    unfolding short_def P_def by (rule tabular_short_line)
  from e1 obtain t1 where t1: "parseTabularFormat ''2026-11-02'' [long] P = [t1]" by auto
  from e2 obtain t2 where t2: "parseTabularFormat ''2026-11-02'' [short] P = [t2]" by auto
  have "description t1 = take 100 (tabular_description P (trim long)) @ ''...''"
    using tabular_description_bound [of "''2026-11-02''" "[long]" P] unfolding t1 by (simp add: c1)
  moreover have "description t2 = tabular_description P (trim short)"
    using tabular_description_bound [of "''2026-11-02''" "[short]" P] unfolding t2 by (simp add: c2)
  ultimately have "map description (parseTabularFormat ''2026-11-02'' [long] P)
       = [take 100 (tabular_description P (trim long)) @ ''...'']
     \<and> length (tabular_description P (trim long)) = 101
     \<and> map description (parseTabularFormat ''2026-11-02'' [short] P) = [tabular_description P (trim short)]
     \<and> length (tabular_description P (trim short)) = 7"
    unfolding t1 t2 by (simp add: c1 c2)
  then show ?thesis unfolding long_def short_def P_def .
qed

section \<open>Which amount of a line is taken\<close>

lemma pick_amount_choice:
  "pick_amount amounts \<noteq> Num 0 \<Longrightarrow>
     pick_amount amounts = (if truthy (last amounts) then last amounts else hd amounts)"
  by (auto simp: pick_amount_def js_or_def)

text \<open>
  C5, as the code has it. For a line the tabular strategy (or the regex strategy, which
  shares the rule) turns into a transaction, the amount is the magnitude of the last
  amount-pattern match when that match parses to a number other than zero, and the
  magnitude of the first match on the line otherwise.
\<close>

theorem amount_is_last_nonzero_else_first:
  "(tabular_row today patterns n raw = Some tx \<longrightarrow>
      amount tx =
        (let amounts = map (\<lambda>a. parseFloat (remove_commas a)) (match_all (amountPattern patterns) (trim raw))
         in if truthy (last amounts) then js_abs (last amounts) else js_abs (hd amounts)))
   \<and> (regex_row today patterns n raw = Some tx \<longrightarrow>
      amount tx =
        (let amounts = map (\<lambda>a. parseFloat (remove_commas a)) (match_all (amountPattern patterns) raw)
         in if truthy (last amounts) then js_abs (last amounts) else js_abs (hd amounts)))"
proof (intro conjI impI)
  assume "tabular_row today patterns n raw = Some tx"
  then have a: "amount tx = js_abs (pick_amount (map (\<lambda>a. parseFloat (remove_commas a))
        (match_all (amountPattern patterns) (trim raw))))"
    and nz: "pick_amount (map (\<lambda>a. parseFloat (remove_commas a))
        (match_all (amountPattern patterns) (trim raw))) \<noteq> Num 0"
    by (auto simp: tabular_row_def Let_def split: if_splits)
  show "amount tx =
        (let amounts = map (\<lambda>a. parseFloat (remove_commas a)) (match_all (amountPattern patterns) (trim raw))
         in if truthy (last amounts) then js_abs (last amounts) else js_abs (hd amounts))"
    unfolding a pick_amount_choice [OF nz] Let_def by simp
next
  assume "regex_row today patterns n raw = Some tx"
  then have a: "amount tx = js_abs (pick_amount (map (\<lambda>a. parseFloat (remove_commas a))
        (match_all (amountPattern patterns) raw)))"
    and nz: "pick_amount (map (\<lambda>a. parseFloat (remove_commas a))
        (match_all (amountPattern patterns) raw)) \<noteq> Num 0"
    by (auto simp: regex_row_def Let_def split: if_splits)
  show "amount tx =
        (let amounts = map (\<lambda>a. parseFloat (remove_commas a)) (match_all (amountPattern patterns) raw)
         in if truthy (last amounts) then js_abs (last amounts) else js_abs (hd amounts))"
    unfolding a pick_amount_choice [OF nz] Let_def by simp
qed

lemma zero_balance_row:
  "tabular_row ''2026-11-02'' (BANK_PATTERNS hdfc) 0 ''01/04/2024 ATM WDL 500.00 0.00''
   = Some \<lparr>tx_id = ''temp-0'', date = ''2024-04-01'', description = ''ATM WDL'', amount = Num 1,
        tx_type = credit, category = ''cash'', balance = None, reference = None,
        isReconciled = False, confidence = 8 / 10\<rparr>"
  by code_simp

lemma zero_balance_regex_row:
  "regex_row ''2026-11-02'' (BANK_PATTERNS hdfc) 0 ''01/04/2024 ATM WDL 500.00 0.00''
   = Some \<lparr>tx_id = ''temp-0'', date = ''2024-04-01'', description = ''ATM WDL'', amount = Num 1,
        tx_type = credit, category = ''cash'', balance = None, reference = None,
        isReconciled = False, confidence = 6 / 10\<rparr>"
  by code_simp

lemma zero_balance_amounts:
  "map (\<lambda>a. parseFloat (remove_commas a)) (match_all amount_rx ''01/04/2024 ATM WDL 500.00 0.00'')
   = [Num 1, Num 4, Num 202, Num 4, Num 500, Num 0]"
  by code_simp

lemma zero_balance_matches:
  "match_all amount_rx ''01/04/2024 ATM WDL 500.00 0.00''
   = [''01'', ''04'', ''202'', ''4'', ''500.00'', ''0.00'']"
  by code_simp

lemma zero_balance_line:
  "map amount (parseTabularFormat ''2026-11-02'' [''01/04/2024 ATM WDL 500.00 0.00''] (BANK_PATTERNS hdfc))
   = [Num 1]"
  by code_simp

text \<open>
  A line that ends in a zero amount: the last match is \<open>0.00\<close>, and the transaction gets
  the amount 1, the first match, which is the day of the date.
\<close>

theorem last_amount_counterexample:
  "map amount (parseTabularFormat ''2026-11-02'' [''01/04/2024 ATM WDL 500.00 0.00''] (BANK_PATTERNS hdfc))
     = [Num 1]
   \<and> last (match_all (amountPattern (BANK_PATTERNS hdfc)) ''01/04/2024 ATM WDL 500.00 0.00'') = ''0.00''
   \<and> parseFloat (remove_commas ''0.00'') = Num 0"
proof -
  have z: "parseFloat (remove_commas ''0.00'') = Num 0" by code_simp
  have p: "amountPattern (BANK_PATTERNS hdfc) = amount_rx" by simp
  show ?thesis
    unfolding zero_balance_line p zero_balance_matches z by simp
qed

theorem amount_is_last_nonzero_else_first_witness:
  "map_option amount (tabular_row ''2026-11-02'' (BANK_PATTERNS hdfc) 0 ''01/04/2024 ATM WDL 500.00 0.00'')
     = Some (js_abs (Num 1))
   \<and> map_option amount (regex_row ''2026-11-02'' (BANK_PATTERNS hdfc) 0 ''01/04/2024 ATM WDL 500.00 0.00'')
     = Some (js_abs (Num 1))
   \<and> hd (map (\<lambda>a. parseFloat (remove_commas a)) (match_all amount_rx ''01/04/2024 ATM WDL 500.00 0.00''))
     = Num 1
   \<and> \<not> truthy (last (map (\<lambda>a. parseFloat (remove_commas a))
         (match_all amount_rx ''01/04/2024 ATM WDL 500.00 0.00'')))"
proof -
  have t: "trim ''01/04/2024 ATM WDL 500.00 0.00'' = ''01/04/2024 ATM WDL 500.00 0.00''"
    by code_simp
  have p: "amountPattern (BANK_PATTERNS hdfc) = amount_rx" by simp
  show ?thesis
    using amount_is_last_nonzero_else_first [of "''2026-11-02''" "BANK_PATTERNS hdfc" 0
        "''01/04/2024 ATM WDL 500.00 0.00''"
        "\<lparr>tx_id = ''temp-0'', date = ''2024-04-01'', description = ''ATM WDL'', amount = Num 1,
          tx_type = credit, category = ''cash'', balance = None, reference = None,
          isReconciled = False, confidence = 8 / 10\<rparr>"]
    unfolding zero_balance_row zero_balance_regex_row t p zero_balance_amounts
    by (simp add: truthy_def)
qed

section \<open>The order of the strategies\<close>

text \<open>
  C2, as the code has it. The engine calls the tabular, the line-grouped and the regex
  strategy in this order and stops at the first one that returns at least one candidate:
  the candidates kept are exactly that strategy's list, the later strategies are not
  called, and nothing of another strategy is added. The transactions of the import are
  not that list itself: they are its candidates with a date and an amount other than
  zero, in order, each with the new id \<open>pdf-clock-index\<close>.
\<close>

theorem first_successful_strategy_wins:
  "run_strategies (strategies today text' (BANK_PATTERNS bankType)) =
     (if parseTabularFormat today (allLines text') (BANK_PATTERNS bankType) \<noteq> []
      then ([Tabular], parseTabularFormat today (allLines text') (BANK_PATTERNS bankType))
      else if parseLineByLineFormat today (allLines text') (BANK_PATTERNS bankType) \<noteq> []
      then ([Tabular, LineByLine], parseLineByLineFormat today (allLines text') (BANK_PATTERNS bankType))
      else ([Tabular, LineByLine, RegexSweep], parseRegexFormat today text' (BANK_PATTERNS bankType)))
   \<and> transactions (parseTransactionsFromText today clock text' bankType) =
       map (\<lambda>(index, tx). tx\<lparr>tx_id := ''pdf-'' @ show_int (clock index) @ ''-'' @ show_int (int index)\<rparr>)
         (enumerate 0 (filter (\<lambda>tx. date tx \<noteq> [] \<and> amount tx \<noteq> Num 0)
            (if parseTabularFormat today (allLines text') (BANK_PATTERNS bankType) \<noteq> []
             then parseTabularFormat today (allLines text') (BANK_PATTERNS bankType)
             else if parseLineByLineFormat today (allLines text') (BANK_PATTERNS bankType) \<noteq> []
             then parseLineByLineFormat today (allLines text') (BANK_PATTERNS bankType)
             else parseRegexFormat today text' (BANK_PATTERNS bankType))))"
  by (simp add: strategies_def parseTransactionsFromText_def validTransactions_def Let_def
      del: BANK_PATTERNS.simps)

lemma zero_candidate_tabular:
  "parseTabularFormat ''2026-11-02'' (allLines (''REF 000'' @ [CHR 0x0A] @ ''PAY 01/04/2024'' @ [CHR 0x0A] @ ''x''))
     (BANK_PATTERNS hdfc) = []"
  by code_simp

lemma zero_candidate_line_grouped:
  "parseLineByLineFormat ''2026-11-02''
     (allLines (''REF 000'' @ [CHR 0x0A] @ ''PAY 01/04/2024'' @ [CHR 0x0A] @ ''x'')) (BANK_PATTERNS hdfc)
   = [\<lparr>tx_id = ''temp-0'', date = ''2024-04-01'', description = ''REF'', amount = Num 0,
        tx_type = credit, category = ''other'', balance = None, reference = None,
        isReconciled = False, confidence = 7 / 10\<rparr>]"
  by code_simp

lemma zero_candidate_regex:
  "parseRegexFormat ''2026-11-02'' (''REF 000'' @ [CHR 0x0A] @ ''PAY 01/04/2024'' @ [CHR 0x0A] @ ''x'')
     (BANK_PATTERNS hdfc)
   = [\<lparr>tx_id = ''temp-0'', date = ''2024-04-01'', description = ''PAY'', amount = Num 4,
        tx_type = credit, category = ''other'', balance = None, reference = None,
        isReconciled = False, confidence = 6 / 10\<rparr>]"
  by code_simp

text \<open>
  Three lines on which the line-grouped strategy wins with one candidate of amount 0: the
  filter drops it, the import returns no transaction, and the regex strategy, which
  finds a transaction on the second line, is never called.
\<close>

theorem winning_list_is_not_the_output_counterexample:
  "run_strategies (strategies ''2026-11-02''
       (''REF 000'' @ [CHR 0x0A] @ ''PAY 01/04/2024'' @ [CHR 0x0A] @ ''x'') (BANK_PATTERNS hdfc))
     = ([Tabular, LineByLine],
        [\<lparr>tx_id = ''temp-0'', date = ''2024-04-01'', description = ''REF'', amount = Num 0,
           tx_type = credit, category = ''other'', balance = None, reference = None,
           isReconciled = False, confidence = 7 / 10\<rparr>])
   \<and> parseTransactionsFromText ''2026-11-02'' (\<lambda>i. 1700000000000)
       (''REF 000'' @ [CHR 0x0A] @ ''PAY 01/04/2024'' @ [CHR 0x0A] @ ''x'') hdfc
     = \<lparr>transactions = [],
        errors = [\<lparr>row = None, message = ''No valid transactions could be extracted from the PDF text'',
                   severity = warning\<rparr>]\<rparr>"
  by code_simp

lemma tabular_wins:
  "parseTabularFormat ''2026-11-02'' (allLines ''01/04/2024 SWIGGY ORDER 250.00'') (BANK_PATTERNS hdfc)
   = [\<lparr>tx_id = ''temp-0'', date = ''2024-04-01'', description = ''SWIGGY ORDER'', amount = Num 250,
        tx_type = credit, category = ''food'', balance = None, reference = None,
        isReconciled = False, confidence = 8 / 10\<rparr>]"
  by code_simp

lemma shown_ids: "show_int 1700000000000 = ''1700000000000''" "show_int 0 = ''0''"
  by code_simp+

theorem first_successful_strategy_wins_witness:
  "run_strategies (strategies ''2026-11-02'' ''01/04/2024 SWIGGY ORDER 250.00'' (BANK_PATTERNS hdfc))
     = ([Tabular],
        [\<lparr>tx_id = ''temp-0'', date = ''2024-04-01'', description = ''SWIGGY ORDER'', amount = Num 250,
           tx_type = credit, category = ''food'', balance = None, reference = None,
           isReconciled = False, confidence = 8 / 10\<rparr>])
   \<and> transactions (parseTransactionsFromText ''2026-11-02'' (\<lambda>i. 1700000000000)
         ''01/04/2024 SWIGGY ORDER 250.00'' hdfc)
     = [\<lparr>tx_id = ''pdf-1700000000000-0'', date = ''2024-04-01'', description = ''SWIGGY ORDER'',
          amount = Num 250, tx_type = credit, category = ''food'', balance = None, reference = None,
          isReconciled = False, confidence = 8 / 10\<rparr>]
   \<and> fst (run_strategies (strategies ''2026-11-02''
         (''REF 000'' @ [CHR 0x0A] @ ''PAY 01/04/2024'' @ [CHR 0x0A] @ ''x'') (BANK_PATTERNS hdfc)))
     = [Tabular, LineByLine]
   \<and> map amount (snd (run_strategies (strategies ''2026-11-02''
         (''REF 000'' @ [CHR 0x0A] @ ''PAY 01/04/2024'' @ [CHR 0x0A] @ ''x'') (BANK_PATTERNS hdfc))))
     = [Num 0]
   \<and> transactions (parseTransactionsFromText ''2026-11-02'' (\<lambda>i. 1700000000000)
         (''REF 000'' @ [CHR 0x0A] @ ''PAY 01/04/2024'' @ [CHR 0x0A] @ ''x'') hdfc) = []"
proof -
  define a where "a = ''01/04/2024 SWIGGY ORDER 250.00''"
  define z where "z = ''REF 000'' @ [CHR 0x0A] @ ''PAY 01/04/2024'' @ [CHR 0x0A] @ ''x''"
  define P where "P = BANK_PATTERNS hdfc"
  note ta = tabular_wins [folded a_def P_def]
  note tz = zero_candidate_tabular [folded z_def P_def]
  note lz = zero_candidate_line_grouped [folded z_def P_def]
  have "run_strategies (strategies ''2026-11-02'' a P)
     = ([Tabular],
        [\<lparr>tx_id = ''temp-0'', date = ''2024-04-01'', description = ''SWIGGY ORDER'', amount = Num 250,
           tx_type = credit, category = ''food'', balance = None, reference = None,
           isReconciled = False, confidence = 8 / 10\<rparr>])
   \<and> transactions (parseTransactionsFromText ''2026-11-02'' (\<lambda>i. 1700000000000) a hdfc)
     = [\<lparr>tx_id = ''pdf-1700000000000-0'', date = ''2024-04-01'', description = ''SWIGGY ORDER'',
          amount = Num 250, tx_type = credit, category = ''food'', balance = None, reference = None,
          isReconciled = False, confidence = 8 / 10\<rparr>]"
    using first_successful_strategy_wins [of "''2026-11-02''" a hdfc "\<lambda>i. 1700000000000", folded P_def]
    unfolding ta by (simp add: shown_ids)
  moreover have "fst (run_strategies (strategies ''2026-11-02'' z P)) = [Tabular, LineByLine]
   \<and> map amount (snd (run_strategies (strategies ''2026-11-02'' z P))) = [Num 0]
   \<and> transactions (parseTransactionsFromText ''2026-11-02'' (\<lambda>i. 1700000000000) z hdfc) = []"
    using first_successful_strategy_wins [of "''2026-11-02''" z hdfc "\<lambda>i. 1700000000000", folded P_def]
    unfolding tz lz by simp
  ultimately show ?thesis unfolding a_def z_def P_def by simp
qed

section \<open>An import that finds nothing\<close>

text \<open>
  C3, as the code has it. When no transaction survives, the recognition engine returns an
  empty list with exactly one warning-severity entry; the orchestrator then resolves with
  an empty transaction list and two entries, that warning followed by an error-severity
  entry of its own ("No transactions found in PDF").
\<close>

theorem empty_result_is_warning_then_error:
  assumes "file_type f = ''application/pdf''" and "file_size f \<le> 50 * 1024 * 1024"
    and "pdfToText f = Inr text'" and "trim text' \<noteq> []"
    and "transactions (parseTransactionsFromText today clock text'
           (if bankType = generic then detectBankType text' else bankType)) = []"
  shows "errors (parseTransactionsFromText today clock text'
           (if bankType = generic then detectBankType text' else bankType))
         = [\<lparr>row = None, message = ''No valid transactions could be extracted from the PDF text'',
             severity = warning\<rparr>]
       \<and> snd (parsePDFBankStatement pdfToText today clock (Some f) bankType)
         = Resolved \<lparr>transactions = [],
             errors = [\<lparr>row = None,
                        message = ''No valid transactions could be extracted from the PDF text'',
                        severity = warning\<rparr>,
                       \<lparr>row = None,
                        message = ''No transactions found in PDF. This might not be a bank statement or the format is not supported.'',
                        severity = error\<rparr>]\<rparr>"
proof -
  let ?p = "parseTransactionsFromText today clock text'
           (if bankType = generic then detectBankType text' else bankType)"
  from assms(5) have e: "errors ?p = [\<lparr>row = None,
      message = ''No valid transactions could be extracted from the PDF text'', severity = warning\<rparr>]"
    by (simp add: parseTransactionsFromText_def Let_def del: BANK_PATTERNS.simps split: if_splits)
  from assms(4) have ne: "text' \<noteq> []" by (auto simp: trim_def)
  have "parse_body pdfToText today clock (Some f) bankType
        = ([f], Inr \<lparr>transactions = [], errors = errors ?p @
             [\<lparr>row = None,
               message = ''No transactions found in PDF. This might not be a bank statement or the format is not supported.'',
               severity = error\<rparr>]\<rparr>)"
    using assms ne by (simp add: parse_body_def Let_def)
  then show ?thesis using e by (simp add: parsePDFBankStatement_def)
qed

lemma hello_parse:
  "parseTransactionsFromText ''2026-11-02'' (\<lambda>i. 1700000000000) ''hello world'' generic
   = \<lparr>transactions = [],
      errors = [\<lparr>row = None, message = ''No valid transactions could be extracted from the PDF text'',
                 severity = warning\<rparr>]\<rparr>"
  by code_simp

lemma hello_detect: "detectBankType ''hello world'' = generic"
  by code_simp

lemma hello_trim: "trim ''hello world'' = ''hello world''"
  by code_simp

text \<open>
  A PDF whose text holds no transaction: the report carries two entries, the warning of
  the engine and an error-severity entry of the orchestrator.
\<close>

theorem empty_result_counterexample:
  "parsePDFBankStatement (\<lambda>f. Inr ''hello world'') ''2026-11-02'' (\<lambda>i. 1700000000000)
     (Some \<lparr>file_type = ''application/pdf'', file_size = 2048\<rparr>) generic
   = ([\<lparr>file_type = ''application/pdf'', file_size = 2048\<rparr>],
      Resolved \<lparr>transactions = [],
        errors = [\<lparr>row = None,
                   message = ''No valid transactions could be extracted from the PDF text'',
                   severity = warning\<rparr>,
                  \<lparr>row = None,
                   message = ''No transactions found in PDF. This might not be a bank statement or the format is not supported.'',
                   severity = error\<rparr>]\<rparr>)"
  by code_simp

theorem empty_result_is_warning_then_error_witness:
  "transactions (parseTransactionsFromText ''2026-11-02'' (\<lambda>i. 1700000000000) ''hello world'' generic) = []
   \<and> map severity (errors (parseTransactionsFromText ''2026-11-02'' (\<lambda>i. 1700000000000)
         ''hello world'' generic)) = [warning]
   \<and> snd (parsePDFBankStatement (\<lambda>f. Inr ''hello world'') ''2026-11-02'' (\<lambda>i. 1700000000000)
       (Some \<lparr>file_type = ''application/pdf'', file_size = 2048\<rparr>) generic)
     = Resolved \<lparr>transactions = [],
         errors = [\<lparr>row = None,
                    message = ''No valid transactions could be extracted from the PDF text'',
                    severity = warning\<rparr>,
                   \<lparr>row = None,
                    message = ''No transactions found in PDF. This might not be a bank statement or the format is not supported.'',
                    severity = error\<rparr>]\<rparr>"
  using empty_result_is_warning_then_error [of "\<lparr>file_type = ''application/pdf'', file_size = 2048\<rparr>"
      "\<lambda>f. Inr ''hello world''" "''hello world''" "''2026-11-02''" "\<lambda>i. 1700000000000" generic]
  unfolding hello_trim
  by (simp add: hello_detect hello_parse)

section \<open>Inputs the orchestrator cannot read\<close>

text \<open>
  C4, as the code has it. For a missing file, a file that is not of PDF type, a file over
  50MB, or a PDF whose extracted text is empty or white space only, the promise of the
  import resolves (it never rejects) with an empty transaction list and exactly one
  error-severity entry, "PDF parsing failed: " followed by the reason. For a file of the
  wrong type or over the size limit the extraction library is not called.
\<close>

theorem unrecoverable_input_resolves_with_error:
  "parsePDFBankStatement pdfToText today clock None bankType
     = ([], failure ''Invalid PDF file provided'')
   \<and> (file_type f \<noteq> ''application/pdf'' \<longrightarrow>
        parsePDFBankStatement pdfToText today clock (Some f) bankType
          = ([], failure ''Invalid PDF file provided''))
   \<and> (file_type f = ''application/pdf'' \<and> file_size f > 50 * 1024 * 1024 \<longrightarrow>
        parsePDFBankStatement pdfToText today clock (Some f) bankType
          = ([], failure ''PDF file too large (max 50MB)''))
   \<and> (file_type f = ''application/pdf'' \<and> file_size f \<le> 50 * 1024 * 1024
        \<and> pdfToText f = Inr text' \<and> trim text' = [] \<longrightarrow>
        parsePDFBankStatement pdfToText today clock (Some f) bankType
          = ([f], failure ''No text could be extracted from the PDF. The file might be scanned or corrupted.''))
   \<and> (\<exists>calls r. parsePDFBankStatement pdfToText today clock file bankType = (calls, Resolved r))"
proof (intro conjI impI)
  show "\<exists>calls r. parsePDFBankStatement pdfToText today clock file bankType = (calls, Resolved r)"
    by (cases "parse_body pdfToText today clock file bankType"; cases "snd (parse_body pdfToText today clock file bankType)")
       (auto simp: parsePDFBankStatement_def)
qed (auto simp: parsePDFBankStatement_def parse_body_def failure_def errorMessage_def)

text \<open>
  A CSV file, an oversize PDF and a PDF with blank text: each time the promise resolves.
\<close>

theorem unrecoverable_input_counterexample:
  "parsePDFBankStatement (\<lambda>f. Inr ''01/04/2024 ATM WDL 500.00'') ''2026-11-02'' (\<lambda>i. 1700000000000)
     (Some \<lparr>file_type = ''text/csv'', file_size = 2048\<rparr>) generic
   = ([], Resolved \<lparr>transactions = [],
        errors = [\<lparr>row = None, message = ''PDF parsing failed: Invalid PDF file provided'',
                   severity = error\<rparr>]\<rparr>)
   \<and> parsePDFBankStatement (\<lambda>f. Inr ''01/04/2024 ATM WDL 500.00'') ''2026-11-02'' (\<lambda>i. 1700000000000)
     (Some \<lparr>file_type = ''application/pdf'', file_size = 52428801\<rparr>) generic
   = ([], Resolved \<lparr>transactions = [],
        errors = [\<lparr>row = None, message = ''PDF parsing failed: PDF file too large (max 50MB)'',
                   severity = error\<rparr>]\<rparr>)
   \<and> parsePDFBankStatement (\<lambda>f. Inr ''   '') ''2026-11-02'' (\<lambda>i. 1700000000000)
     (Some \<lparr>file_type = ''application/pdf'', file_size = 2048\<rparr>) generic
   = ([\<lparr>file_type = ''application/pdf'', file_size = 2048\<rparr>],
      Resolved \<lparr>transactions = [],
        errors = [\<lparr>row = None,
                   message = ''PDF parsing failed: No text could be extracted from the PDF. The file might be scanned or corrupted.'',
                   severity = error\<rparr>]\<rparr>)"
  by code_simp

lemma blank_trim: "trim ''   '' = []"
  by code_simp

theorem unrecoverable_input_resolves_with_error_witness:
  "parsePDFBankStatement (\<lambda>f. Inr ''   '') ''2026-11-02'' (\<lambda>i. 1700000000000)
     (Some \<lparr>file_type = ''text/csv'', file_size = 52428801\<rparr>) generic
     = ([], failure ''Invalid PDF file provided'')
   \<and> parsePDFBankStatement (\<lambda>f. Inr ''   '') ''2026-11-02'' (\<lambda>i. 1700000000000)
     (Some \<lparr>file_type = ''application/pdf'', file_size = 52428801\<rparr>) generic
     = ([], failure ''PDF file too large (max 50MB)'')
   \<and> parsePDFBankStatement (\<lambda>f. Inr ''   '') ''2026-11-02'' (\<lambda>i. 1700000000000)
     (Some \<lparr>file_type = ''application/pdf'', file_size = 2048\<rparr>) generic
     = ([\<lparr>file_type = ''application/pdf'', file_size = 2048\<rparr>],
        failure ''No text could be extracted from the PDF. The file might be scanned or corrupted.'')"
  using
    unrecoverable_input_resolves_with_error [of "\<lambda>f. Inr ''   ''" "''2026-11-02''" "\<lambda>i. 1700000000000"
      generic "\<lparr>file_type = ''text/csv'', file_size = 52428801\<rparr>" "''   ''" None]
    unrecoverable_input_resolves_with_error [of "\<lambda>f. Inr ''   ''" "''2026-11-02''" "\<lambda>i. 1700000000000"
      generic "\<lparr>file_type = ''application/pdf'', file_size = 52428801\<rparr>" "''   ''" None]
    unrecoverable_input_resolves_with_error [of "\<lambda>f. Inr ''   ''" "''2026-11-02''" "\<lambda>i. 1700000000000"
      generic "\<lparr>file_type = ''application/pdf'', file_size = 2048\<rparr>" "''   ''" None]
  unfolding blank_trim
  by simp

section \<open>The CSV scenario\<close>

lemma atm_lines:
  "filter (\<lambda>line. line \<noteq> [])
     (map trim (split_on (\<lambda>c. c = CHR 0x0A)
        (''Date,Narration,Debit,Credit,Balance'' @ [CHR 0x0A] @ ''01/04/2024,ATM WDL,500,,1200'')))
   = [''Date,Narration,Debit,Credit,Balance'', ''01/04/2024,ATM WDL,500,,1200'']"
  by code_simp

lemma atm_cells:
  "cells ''Date,Narration,Debit,Credit,Balance'' = [''Date'', ''Narration'', ''Debit'', ''Credit'', ''Balance'']"
  "cells ''01/04/2024,ATM WDL,500,,1200'' = [''01/04/2024'', ''ATM WDL'', ''500'', '''', ''1200'']"
  by code_simp+

lemma atm_fields:
  "getField [''01/04/2024'', ''ATM WDL'', ''500'', '''', ''1200'']
     [''Date'', ''Narration'', ''Debit'', ''Credit'', ''Balance'']
     [''date'', ''transaction date'', ''value date''] = ''01/04/2024''"
  "getField [''01/04/2024'', ''ATM WDL'', ''500'', '''', ''1200'']
     [''Date'', ''Narration'', ''Debit'', ''Credit'', ''Balance'']
     [''description'', ''particulars'', ''narration'', ''details''] = ''ATM WDL''"
  "getField [''01/04/2024'', ''ATM WDL'', ''500'', '''', ''1200'']
     [''Date'', ''Narration'', ''Debit'', ''Credit'', ''Balance'']
     [''debit'', ''withdrawal'', ''debit amount''] = ''500''"
  "getField [''01/04/2024'', ''ATM WDL'', ''500'', '''', ''1200'']
     [''Date'', ''Narration'', ''Debit'', ''Credit'', ''Balance'']
     [''credit'', ''deposit'', ''credit amount''] = []"
  "getField [''01/04/2024'', ''ATM WDL'', ''500'', '''', ''1200'']
     [''Date'', ''Narration'', ''Debit'', ''Credit'', ''Balance'']
     [''balance'', ''running balance'', ''available balance''] = ''1200''"
  "getField [''01/04/2024'', ''ATM WDL'', ''500'', '''', ''1200'']
     [''Date'', ''Narration'', ''Debit'', ''Credit'', ''Balance'']
     [''reference'', ''ref no'', ''transaction id'', ''cheque no''] = []"
  by code_simp+

lemma atm_values:
  "parseFloat ''500'' = Num 500"
  "parseFloat ''1200'' = Num 1200"
  "categorizeParsedTransaction ''ATM WDL'' = ''Other''"
  "categorizeTransaction ''ATM WDL'' = ''cash''"
  by code_simp+

lemma atm_row:
  assumes "toISO ''01/04/2024'' = Inr d"
  shows "parseCSVTransaction toISO i [''01/04/2024'', ''ATM WDL'', ''500'', '''', ''1200'']
           [''Date'', ''Narration'', ''Debit'', ''Credit'', ''Balance'']
         = Inr \<lparr>tx_id = i, date = d, description = ''ATM WDL'', amount = Num 500, tx_type = debit,
                category = ''Other'', balance = Some (Num 1200), reference = None,
                isReconciled = False, confidence = 9 / 10\<rparr>"
  unfolding parseCSVTransaction_def atm_fields Let_def
  using assms by (simp add: atm_values js_or_def truthy_def js_gt_def)

text \<open>
  C8, as the code has it. The CSV file with the header
  \<open>Date,Narration,Debit,Credit,Balance\<close> and the row \<open>01/04/2024,ATM WDL,500,,1200\<close>
  gives exactly one transaction and no error entry, wherever the date constructor reads
  the date cell: direction debit, amount 500, and the category \<open>Other\<close>, because the
  keyword table of the CSV classifier has no entry for cash.
\<close>

theorem atm_csv_row_is_debit_500_other:
  assumes "toISO ''01/04/2024'' = Inr d"
  shows "parseCSVFile toISO new_id
           (''Date,Narration,Debit,Credit,Balance'' @ [CHR 0x0A] @ ''01/04/2024,ATM WDL,500,,1200'')
         = \<lparr>transactions =
              [\<lparr>tx_id = new_id 1, date = d, description = ''ATM WDL'', amount = Num 500,
                 tx_type = debit, category = ''Other'', balance = Some (Num 1200), reference = None,
                 isReconciled = False, confidence = 9 / 10\<rparr>],
            errors = []\<rparr>"
proof -
  note r = atm_row [where toISO = toISO and d = d, OF assms]
  show ?thesis
    unfolding parseCSVFile_def atm_lines Let_def
    by (simp add: csv_row_def atm_cells r js_gt_def)
qed

text \<open>The category of the scenario's transaction is \<open>Other\<close>, not \<open>cash\<close>.\<close>

theorem atm_csv_category_counterexample:
  "map (\<lambda>tx. (tx_type tx, amount tx, category tx))
     (transactions (parseCSVFile (\<lambda>d. Inr ''2024-01-04T00:00:00.000Z'') (\<lambda>i. ''parsed_1700000000000_k3j9x2m1q'')
        (''Date,Narration,Debit,Credit,Balance'' @ [CHR 0x0A] @ ''01/04/2024,ATM WDL,500,,1200'')))
   = [(debit, Num 500, ''Other'')]"
  by code_simp

theorem atm_csv_row_is_debit_500_other_witness:
  "parseCSVFile (\<lambda>d. Inr ''2024-01-04T00:00:00.000Z'') (\<lambda>i. ''parsed_1700000000000_k3j9x2m1q'')
     (''Date,Narration,Debit,Credit,Balance'' @ [CHR 0x0A] @ ''01/04/2024,ATM WDL,500,,1200'')
   = \<lparr>transactions =
        [\<lparr>tx_id = ''parsed_1700000000000_k3j9x2m1q'', date = ''2024-01-04T00:00:00.000Z'',
           description = ''ATM WDL'', amount = Num 500, tx_type = debit, category = ''Other'',
           balance = Some (Num 1200), reference = None, isReconciled = False, confidence = 9 / 10\<rparr>],
      errors = []\<rparr>"
  using atm_csv_row_is_debit_500_other [of "\<lambda>d. Inr ''2024-01-04T00:00:00.000Z''"
      "''2024-01-04T00:00:00.000Z''" "\<lambda>i. ''parsed_1700000000000_k3j9x2m1q''"]
  by simp

section \<open>Running an import twice\<close>


lemma length_validTransactions:
  "length (validTransactions clock txs) = length (filter (\<lambda>tx. date tx \<noteq> [] \<and> amount tx \<noteq> Num 0) txs)"
  by (simp add: validTransactions_def)












section \<open>Dates of emitted transactions\<close>















end
